theory Spec2Isabelle
  imports Main "HOL-Library.Word" "HOL-Library.Sublist"
begin

section \<open>Values of the host language\<close>

text \<open>
  A JavaScript string is a finite sequence of UTF-16 code units; nothing forces surrogates to
  come in pairs. \<open>bigint\<close> is an unbounded integer.
\<close>

type_synonym jsstring = "16 word list"

definition js :: "string \<Rightarrow> jsstring" where
  \<comment> \<open>a string literal of the source (all literals of the source are ASCII)\<close>
  "js s = map (\<lambda>c. word_of_nat (of_char c)) s"

definition startsWith :: "jsstring \<Rightarrow> jsstring \<Rightarrow> bool" where
  \<comment> \<open>\<^verbatim>\<open>s.startsWith(p)\<close>\<close>
  "startsWith s p = prefix p s"

definition digit_char :: "nat \<Rightarrow> 16 word" where
  \<comment> \<open>the digit characters \<^verbatim>\<open>0\<close>..\<^verbatim>\<open>9\<close>, \<^verbatim>\<open>a\<close>..\<^verbatim>\<open>z\<close> used by \<^verbatim>\<open>toString(radix)\<close>\<close>
  "digit_char d = word_of_nat (if d < 10 then 48 + d else 87 + d)"

function nat_toString :: "nat \<Rightarrow> nat \<Rightarrow> jsstring" where
  \<comment> \<open>digits of a non-negative integer in the given radix, most significant first, no
     padding; the source uses the radices 10 and 16 (one outside 2..36 is a RangeError)\<close>
  "nat_toString radix n =
     (if radix < 2 \<or> n < radix then [digit_char n]
      else nat_toString radix (n div radix) @ [digit_char (n mod radix)])"
  by pat_completeness auto
termination
  by (relation "measure snd") auto

declare nat_toString.simps [simp del]

definition bigint_toString :: "int \<Rightarrow> jsstring" where
  \<comment> \<open>\<^verbatim>\<open>`${b}`\<close> for a bigint \<open>b\<close>: decimal digits, with a leading minus sign when negative\<close>
  "bigint_toString b =
     (if b < 0 then js ''-'' @ nat_toString 10 (nat (- b)) else nat_toString 10 (nat b))"

text \<open>
  A \<open>number\<close> is a double. The code only ever converts numbers to and from \<open>bigint\<close>, so the
  model keeps the integer-valued numbers apart from all the others (fractions, NaN and the
  infinities), on which \<^verbatim>\<open>BigInt(x)\<close> raises a RangeError. \<open>Num n\<close> stands for the double
  whose value is the integer \<open>n\<close>; every integer of magnitude up to \<open>2 ^ 53\<close> is one.
\<close>

datatype number = Num int | NonInteger

definition padStart :: "nat \<Rightarrow> 16 word \<Rightarrow> jsstring \<Rightarrow> jsstring" where
  \<comment> \<open>\<^verbatim>\<open>s.padStart(n, c)\<close> for a one-character filler \<open>c\<close>\<close>
  "padStart n c s = replicate (n - length s) c @ s"

definition BigInt :: "number \<Rightarrow> int option" where
  \<comment> \<open>\<^verbatim>\<open>BigInt(x)\<close> for a number \<open>x\<close>; \<open>None\<close> is the RangeError on a number that is not an integer\<close>
  "BigInt x = (case x of Num n \<Rightarrow> Some n | NonInteger \<Rightarrow> None)"

fun bit_length :: "nat \<Rightarrow> nat" where
  "bit_length n = (if n = 0 then 0 else Suc (bit_length (n div 2)))"

declare bit_length.simps [simp del]

definition Number_of_bigint :: "int \<Rightarrow> number" where
  \<comment> \<open>\<^verbatim>\<open>Number(b)\<close> for a bigint \<open>b\<close>: the nearest double (53 significant bits, ties to even),
     infinite from \<open>2 ^ 1024\<close> on\<close>
  "Number_of_bigint b =
     (let a = nat \<bar>b\<bar>;
          e = bit_length a - 53;
          q = a div 2 ^ e;
          r = a mod 2 ^ e;
          q' = (if 2 ^ e < 2 * r \<or> (2 * r = 2 ^ e \<and> odd q) then q + 1 else q);
          v = q' * 2 ^ e
      in if 2 ^ 1024 \<le> v then NonInteger else Num (sgn b * int v))"

subsection \<open>Text encoding (the platform's TextEncoder and TextDecoder, UTF-8)\<close>

definition is_surrogate :: "nat \<Rightarrow> bool" where
  "is_surrogate u = (0xD800 \<le> u \<and> u \<le> 0xDFFF)"

definition is_lead :: "nat \<Rightarrow> bool" where
  "is_lead u = (0xD800 \<le> u \<and> u \<le> 0xDBFF)"

definition is_trail :: "nat \<Rightarrow> bool" where
  "is_trail u = (0xDC00 \<le> u \<and> u \<le> 0xDFFF)"

definition lone_unit :: "16 word \<Rightarrow> nat" where
  \<comment> \<open>a code unit read on its own: an unpaired surrogate becomes U+FFFD\<close>
  "lone_unit u = (if is_surrogate (unat u) then 0xFFFD else unat u)"

fun scalar_values :: "jsstring \<Rightarrow> nat list" where
  \<comment> \<open>the scalar values (code points) of a string, as TextEncoder reads it\<close>
  "scalar_values [] = []"
| "scalar_values [u] = [lone_unit u]"
| "scalar_values (u # v # r) =
     (if is_lead (unat u) \<and> is_trail (unat v)
      then (0x10000 + (unat u - 0xD800) * 0x400 + (unat v - 0xDC00)) # scalar_values r
      else lone_unit u # scalar_values (v # r))"

definition utf8_encode :: "nat \<Rightarrow> nat list" where
  \<comment> \<open>the UTF-8 bytes of one scalar value\<close>
  "utf8_encode cp =
     (if cp \<le> 0x7F then [cp]
      else if cp \<le> 0x7FF then [0xC0 + cp div 0x40, 0x80 + cp mod 0x40]
      else if cp \<le> 0xFFFF
      then [0xE0 + cp div 0x1000, 0x80 + cp div 0x40 mod 0x40, 0x80 + cp mod 0x40]
      else [0xF0 + cp div 0x40000, 0x80 + cp div 0x1000 mod 0x40,
            0x80 + cp div 0x40 mod 0x40, 0x80 + cp mod 0x40])"

definition TextEncoder_encode :: "jsstring \<Rightarrow> nat list" where
  \<comment> \<open>\<^verbatim>\<open>new TextEncoder().encode(s)\<close>: the bytes of a Uint8Array\<close>
  "TextEncoder_encode s = concat (map utf8_encode (scalar_values s))"

fun utf8_decode :: "nat \<Rightarrow> nat \<Rightarrow> nat \<Rightarrow> nat \<Rightarrow> nat list \<Rightarrow> nat list" where
  \<comment> \<open>the UTF-8 decoder of the Encoding standard with error mode "replacement":
     \<open>utf8_decode cp needed lower upper bytes\<close>, where \<open>cp\<close> is the code point read so far,
     \<open>needed\<close> counts the continuation bytes still expected and \<open>lower\<close>..\<open>upper\<close> is the
     range allowed for the next one. A byte that ends a sequence early is read again as
     the start of the next one.\<close>
  "utf8_decode cp 0 lower upper [] = []"
| "utf8_decode cp (Suc n) lower upper [] = [0xFFFD]"
| "utf8_decode cp 0 lower upper (b # bs) =
     (if b \<le> 0x7F then b # utf8_decode 0 0 0x80 0xBF bs
      else if 0xC2 \<le> b \<and> b \<le> 0xDF then utf8_decode (b mod 0x20) 1 0x80 0xBF bs
      else if 0xE0 \<le> b \<and> b \<le> 0xEF
      then utf8_decode (b mod 0x10) 2 (if b = 0xE0 then 0xA0 else 0x80)
             (if b = 0xED then 0x9F else 0xBF) bs
      else if 0xF0 \<le> b \<and> b \<le> 0xF4
      then utf8_decode (b mod 8) 3 (if b = 0xF0 then 0x90 else 0x80)
             (if b = 0xF4 then 0x8F else 0xBF) bs
      else 0xFFFD # utf8_decode 0 0 0x80 0xBF bs)"
| "utf8_decode cp (Suc n) lower upper (b # bs) =
     (if b < lower \<or> upper < b then 0xFFFD # utf8_decode 0 0 0x80 0xBF (b # bs)
      else if n = 0 then (cp * 0x40 + b mod 0x40) # utf8_decode 0 0 0x80 0xBF bs
      else utf8_decode (cp * 0x40 + b mod 0x40) n 0x80 0xBF bs)"

definition utf16_encode :: "nat \<Rightarrow> jsstring" where
  \<comment> \<open>the code units of one scalar value\<close>
  "utf16_encode cp =
     (if cp < 0x10000 then [word_of_nat cp]
      else [word_of_nat (0xD800 + (cp - 0x10000) div 0x400),
            word_of_nat (0xDC00 + (cp - 0x10000) mod 0x400)])"

definition strip_BOM :: "nat list \<Rightarrow> nat list" where
  \<comment> \<open>a decoder made without \<^verbatim>\<open>ignoreBOM\<close> drops a leading U+FEFF from its output\<close>
  "strip_BOM cps = (case cps of [] \<Rightarrow> [] | c # r \<Rightarrow> if c = 0xFEFF then r else c # r)"

definition TextDecoder_decode :: "nat list \<Rightarrow> jsstring" where
  \<comment> \<open>\<^verbatim>\<open>new TextDecoder().decode(bytes)\<close>: UTF-8, not fatal, \<^verbatim>\<open>ignoreBOM\<close> false\<close>
  "TextDecoder_decode bytes =
     concat (map utf16_encode (strip_BOM (utf8_decode 0 0 0x80 0xBF bytes)))"

subsection \<open>Regular expression and number parsing used by hexToString\<close>

definition is_LineTerminator :: "16 word \<Rightarrow> bool" where
  "is_LineTerminator u = (u = 0x0A \<or> u = 0x0D \<or> u = 0x2028 \<or> u = 0x2029)"

definition is_WhiteSpace :: "16 word \<Rightarrow> bool" where
  "is_WhiteSpace u =
     (u = 0x09 \<or> u = 0x0B \<or> u = 0x0C \<or> u = 0x20 \<or> u = 0xA0 \<or> u = 0x1680
      \<or> (0x2000 \<le> u \<and> u \<le> 0x200A) \<or> u = 0x202F \<or> u = 0x205F \<or> u = 0x3000 \<or> u = 0xFEFF)"

fun match_chunks :: "jsstring \<Rightarrow> jsstring list" where
  \<comment> \<open>all matches of \<^verbatim>\<open>/.{1,2}/g\<close>, left to right: two code units where possible, else one;
     the dot matches no line terminator. \<^verbatim>\<open>match\<close> returns null when there is no match and
     the source turns that into the empty array, which is the empty list here.\<close>
  "match_chunks [] = []"
| "match_chunks [a] = (if is_LineTerminator a then [] else [[a]])"
| "match_chunks (a # b # r) =
     (if is_LineTerminator a then match_chunks (b # r)
      else if is_LineTerminator b then [a] # match_chunks r
      else [a, b] # match_chunks r)"

definition hex_value :: "16 word \<Rightarrow> nat option" where
  "hex_value u =
     (if 0x30 \<le> u \<and> u \<le> 0x39 then Some (unat u - 0x30)
      else if 0x61 \<le> u \<and> u \<le> 0x66 then Some (unat u - 0x57)
      else if 0x41 \<le> u \<and> u \<le> 0x46 then Some (unat u - 0x37)
      else None)"

fun hex_digits_value :: "nat \<Rightarrow> jsstring \<Rightarrow> nat" where
  \<comment> \<open>the value of the longest prefix of hexadecimal digits, after the accumulator\<close>
  "hex_digits_value acc [] = acc"
| "hex_digits_value acc (u # r) =
     (case hex_value u of None \<Rightarrow> acc | Some d \<Rightarrow> hex_digits_value (16 * acc + d) r)"

definition parseInt16 :: "jsstring \<Rightarrow> int option" where
  \<comment> \<open>\<^verbatim>\<open>parseInt(s, 16)\<close>, \<open>None\<close> for NaN: leading white space is skipped, then a sign, then
     an optional \<^verbatim>\<open>0x\<close>; the digits that follow are read as far as they go. (Exact for the
     short strings it is applied to; a double cannot hold more than 53 bits.)\<close>
  "parseInt16 s =
     (let s1 = dropWhile (\<lambda>u. is_WhiteSpace u \<or> is_LineTerminator u) s;
          negative = (case s1 of [] \<Rightarrow> False | u # _ \<Rightarrow> u = 0x2D);
          s2 = (case s1 of [] \<Rightarrow> [] | u # r \<Rightarrow> if u = 0x2B \<or> u = 0x2D then r else u # r);
          s3 = (case s2 of u # v # r \<Rightarrow> if u = 0x30 \<and> (v = 0x78 \<or> v = 0x58) then r else s2
                | _ \<Rightarrow> s2)
      in case s3 of [] \<Rightarrow> None
         | u # _ \<Rightarrow> if hex_value u = None then None
                    else Some ((if negative then - 1 else 1) * int (hex_digits_value 0 s3)))"

definition ToUint8 :: "int option \<Rightarrow> nat" where
  \<comment> \<open>storing a number into a Uint8Array: NaN becomes 0, an integer is taken modulo 256\<close>
  "ToUint8 x = (case x of None \<Rightarrow> 0 | Some n \<Rightarrow> nat (n mod 256))"

section \<open>Domain types (types.ts)\<close>

text \<open>
  The field \<open>id\<close> of a policy is \<open>id'\<close> here. The fields typed \<open>bigint\<close> are integers, with no
  bound: nothing in the source confines them to 64 bits or to what is not negative.
\<close>

record IdentityLinkage =
  ephemeralRequired :: bool
  proofOfRootAllowed :: bool
  zkContinuityAllowed :: bool

record SPALPolicy =
  id' :: jsstring
  ownerPkh :: jsstring
  minPayment :: int
  maxRetentionMs :: number
  identityLinkage :: IdentityLinkage
  requiredProofHash :: jsstring
  contextScope :: jsstring

record ValidationRequest =
  policyId :: jsstring
  requesterDid :: jsstring
  proofReference :: jsstring
  accessTime :: number
  paymentAmount :: int

record ValidationResult =
  valid :: bool
  error :: "jsstring option"
  txHash :: "jsstring option"

section \<open>The off-chain validator (validators/spal-enforcer.ts)\<close>

definition truthy :: "jsstring \<Rightarrow> bool" where
  \<comment> \<open>a string in a boolean position: only the empty string is falsy\<close>
  "truthy s = (s \<noteq> [])"

definition ephemeral_error :: jsstring where
  "ephemeral_error = js ''Ephemeral DID (did:key) required for this policy''"

definition payment_error :: "int \<Rightarrow> int \<Rightarrow> jsstring" where
  "payment_error required got =
     js ''Insufficient payment: required '' @ bigint_toString required
       @ js '', got '' @ bigint_toString got"

definition proof_error :: jsstring where
  "proof_error = js ''Proof reference required but not provided''"

definition invalid :: "jsstring \<Rightarrow> ValidationResult" where
  "invalid msg = \<lparr>valid = False, error = Some msg, txHash = None\<rparr>"

definition validate :: "SPALPolicy \<Rightarrow> ValidationRequest \<Rightarrow> ValidationResult" where
  \<comment> \<open>\<^verbatim>\<open>SPALEnforcer.validate\<close>; the promise it returns is always fulfilled, with this value\<close>
  "validate policy request =
     (if ephemeralRequired (identityLinkage policy)
         \<and> \<not> startsWith (requesterDid request) (js ''did:key:z'')
      then invalid ephemeral_error
      else if minPayment policy > 0 \<and> paymentAmount request < minPayment policy
      then invalid (payment_error (minPayment policy) (paymentAmount request))
      else if (truthy (requiredProofHash policy) \<and> length (requiredProofHash policy) > 0)
            \<and> (\<not> truthy (proofReference request) \<or> length (proofReference request) = 0)
      then invalid proof_error
      else \<lparr>valid = True, error = None, txHash = None\<rparr>)"

section \<open>Plutus data (the SDK's \<^verbatim>\<open>Data\<close> and \<^verbatim>\<open>Constr\<close>)\<close>

text \<open>
  \<^verbatim>\<open>Data = bigint | string | Array<Data> | Map<Data, Data> | Constr<Data>\<close>. A string leaf
  stands for a byte array, written in hexadecimal.
\<close>

datatype data =
    DInteger int
  | DBytes jsstring
  | DArray "data list"
  | DMap "(data \<times> data) list"
  | Constr int "data list"

datatype shape = IdentityLinkage_shape | PolicyDatum_shape | Bool_shape

datatype thrown =
    ExpectedConstr shape
    \<comment> \<open>\<^verbatim>\<open>Error("Invalid <shape> data: expected Constr")\<close>\<close>
  | WrongFieldCount shape nat nat
    \<comment> \<open>\<^verbatim>\<open>Error("Invalid <shape> data: expected <n> fields, got <m>")\<close>\<close>
  | RangeError
    \<comment> \<open>\<^verbatim>\<open>BigInt(x)\<close> on a number that is not an integer\<close>
  | TypeError
    \<comment> \<open>\<^verbatim>\<open>hex.match\<close> is not a function: hexToString on a value that is not a string\<close>
  | UncheckedCast
    \<comment> \<open>not an exception: the source casts with \<^verbatim>\<open>as\<close> and checks nothing, so a field of
       another runtime type goes on into the result, as it is or through \<^verbatim>\<open>Number(...)\<close>.
       What the source returns then lies outside the declared types and is not modelled
       any further.\<close>
  | SdkError
    \<comment> \<open>whatever the SDK's serializer or deserializer raises\<close>

section \<open>Datum and redeemer builders (lucid/datum-builders.ts)\<close>

definition stringToHex :: "jsstring \<Rightarrow> jsstring" where
  "stringToHex str =
     concat (map (\<lambda>b. padStart 2 0x30 (nat_toString 16 b)) (TextEncoder_encode str))"

definition boolToData :: "bool \<Rightarrow> data" where
  "boolToData b = Constr (if b then 1 else 0) []"

definition buildIdentityLinkage :: "IdentityLinkage \<Rightarrow> data" where
  "buildIdentityLinkage linkage =
     Constr 0 [boolToData (ephemeralRequired linkage),
               boolToData (proofOfRootAllowed linkage),
               boolToData (zkContinuityAllowed linkage)]"

definition or_empty :: "jsstring \<Rightarrow> jsstring" where
  \<comment> \<open>\<^verbatim>\<open>s || ""\<close>\<close>
  "or_empty s = (if truthy s then s else [])"

definition buildPolicyDatum :: "SPALPolicy \<Rightarrow> thrown + data" where
  "buildPolicyDatum policy =
     (case BigInt (maxRetentionMs policy) of
        None \<Rightarrow> Inl RangeError
      | Some retention \<Rightarrow>
          Inr (Constr 0 [DBytes (ownerPkh policy),
                         DInteger (minPayment policy),
                         DInteger retention,
                         buildIdentityLinkage (identityLinkage policy),
                         DBytes (or_empty (requiredProofHash policy)),
                         DBytes (stringToHex (contextScope policy))]))"

definition buildAccessRedeemer :: "ValidationRequest \<Rightarrow> thrown + data" where
  "buildAccessRedeemer request =
     (case BigInt (accessTime request) of
        None \<Rightarrow> Inl RangeError
      | Some time \<Rightarrow>
          Inr (Constr 0 [DBytes (stringToHex (requesterDid request)),
                         DBytes (or_empty (proofReference request)),
                         DInteger time,
                         DInteger (paymentAmount request)]))"

definition dataToBool :: "data \<Rightarrow> thrown + bool" where
  "dataToBool d =
     (case d of Constr index fs \<Rightarrow> Inr (index = 1) | _ \<Rightarrow> Inl (ExpectedConstr Bool_shape))"

definition parseIdentityLinkage :: "data \<Rightarrow> thrown + IdentityLinkage" where
  "parseIdentityLinkage d =
     (case d of
        Constr index fs \<Rightarrow>
          (case fs of
             [f0, f1, f2] \<Rightarrow>
               (case dataToBool f0 of
                  Inl e \<Rightarrow> Inl e
                | Inr b0 \<Rightarrow>
                    (case dataToBool f1 of
                       Inl e \<Rightarrow> Inl e
                     | Inr b1 \<Rightarrow>
                         (case dataToBool f2 of
                            Inl e \<Rightarrow> Inl e
                          | Inr b2 \<Rightarrow>
                              Inr \<lparr>ephemeralRequired = b0, proofOfRootAllowed = b1,
                                   zkContinuityAllowed = b2\<rparr>)))
           | _ \<Rightarrow> Inl (WrongFieldCount IdentityLinkage_shape 3 (length fs)))
      | _ \<Rightarrow> Inl (ExpectedConstr IdentityLinkage_shape))"

definition hexToString :: "jsstring \<Rightarrow> jsstring" where
  "hexToString hex = TextDecoder_decode (map (\<lambda>byte. ToUint8 (parseInt16 byte)) (match_chunks hex))"

definition parsePolicyDatum :: "data \<Rightarrow> thrown + SPALPolicy" where
  \<comment> \<open>The fields of the object literal are evaluated in order, so the first exception wins:
     that of parseIdentityLinkage on field 3, then the TypeError of hexToString on a field 5
     that is not a string (\<^verbatim>\<open>Number(...)\<close> raises on no value of \<^verbatim>\<open>Data\<close>). The casts of
     fields 0, 1, 2 and 4 check nothing; when no exception is raised and one of these is of
     another type, the outcome is \<open>UncheckedCast\<close>.\<close>
  "parsePolicyDatum d =
     (case d of
        Constr index fs \<Rightarrow>
          (case fs of
             [f0, f1, f2, f3, f4, f5] \<Rightarrow>
               (case parseIdentityLinkage f3 of
                  Inl e \<Rightarrow> Inl e
                | Inr linkage \<Rightarrow>
                    (case f5 of
                       DBytes scope \<Rightarrow>
                         (case (f0, f1, f2, f4) of
                            (DBytes owner, DInteger payment, DInteger retention,
                             DBytes proofHash) \<Rightarrow>
                              Inr \<lparr>id' = [],
                                   ownerPkh = owner,
                                   minPayment = payment,
                                   maxRetentionMs = Number_of_bigint retention,
                                   identityLinkage = linkage,
                                   requiredProofHash = proofHash,
                                   contextScope = hexToString scope\<rparr>
                          | _ \<Rightarrow> Inl UncheckedCast)
                     | _ \<Rightarrow> Inl TypeError))
           | _ \<Rightarrow> Inl (WrongFieldCount PolicyDatum_shape 6 (length fs)))
      | _ \<Rightarrow> Inl (ExpectedConstr PolicyDatum_shape))"

text \<open>
  \<^verbatim>\<open>Data.to\<close> and \<^verbatim>\<open>Data.from\<close> belong to the SDK, not to this repository: they are
  parameters, and the serialized form is any type \<open>'c\<close> (a CBOR hex string in the SDK).
\<close>

definition serializeDatum :: "(data \<Rightarrow> thrown + 'c) \<Rightarrow> SPALPolicy \<Rightarrow> thrown + 'c" where
  "serializeDatum Data_to policy =
     (case buildPolicyDatum policy of Inl e \<Rightarrow> Inl e | Inr datum \<Rightarrow> Data_to datum)"

definition serializeRedeemer :: "(data \<Rightarrow> thrown + 'c) \<Rightarrow> ValidationRequest \<Rightarrow> thrown + 'c" where
  "serializeRedeemer Data_to request =
     (case buildAccessRedeemer request of Inl e \<Rightarrow> Inl e | Inr redeemer \<Rightarrow> Data_to redeemer)"

definition deserializeDatum :: "('c \<Rightarrow> thrown + data) \<Rightarrow> 'c \<Rightarrow> thrown + SPALPolicy" where
  "deserializeDatum Data_from cbor =
     (case Data_from cbor of Inl e \<Rightarrow> Inl e | Inr d \<Rightarrow> parsePolicyDatum d)"

section \<open>Notions used to state the properties\<close>

definition ascii_lower :: "16 word \<Rightarrow> 16 word" where
  "ascii_lower u = (if 0x41 \<le> u \<and> u \<le> 0x5A then u + 0x20 else u)"

definition mentions :: "jsstring \<Rightarrow> string \<Rightarrow> bool" where
  \<comment> \<open>the message contains the word, letter case apart\<close>
  "mentions msg w = sublist (js w) (map ascii_lower msg)"

definition scalar :: "nat \<Rightarrow> bool" where
  \<comment> \<open>a Unicode scalar value: a code point that is no surrogate\<close>
  "scalar cp = (cp < 0x110000 \<and> \<not> is_surrogate cp)"

fun well_formed :: "jsstring \<Rightarrow> bool" where
  \<comment> \<open>every surrogate is part of a pair: the strings that UTF-8 can carry\<close>
  "well_formed [] = True"
| "well_formed [u] = (\<not> is_surrogate (unat u))"
| "well_formed (u # v # r) =
     (if is_lead (unat u) \<and> is_trail (unat v) then well_formed r
      else \<not> is_surrogate (unat u) \<and> well_formed (v # r))"

definition starts_with_BOM :: "jsstring \<Rightarrow> bool" where
  "starts_with_BOM s = (case s of [] \<Rightarrow> False | u # _ \<Rightarrow> u = 0xFEFF)"

definition is_hex_digit :: "16 word \<Rightarrow> bool" where
  \<comment> \<open>a lowercase hexadecimal digit\<close>
  "is_hex_digit u = ((0x30 \<le> u \<and> u \<le> 0x39) \<or> (0x61 \<le> u \<and> u \<le> 0x66))"

definition hex_bytes :: "jsstring \<Rightarrow> bool" where
  \<comment> \<open>the hexadecimal form of a byte array: lowercase digits, two for each byte\<close>
  "hex_bytes s = (even (length s) \<and> list_all is_hex_digit s)"

definition integral :: "number \<Rightarrow> bool" where
  "integral x = (case x of Num n \<Rightarrow> True | NonInteger \<Rightarrow> False)"

definition safe_integer :: "number \<Rightarrow> bool" where
  \<comment> \<open>an unsigned integer below \<open>2 ^ 53\<close>, which a number holds exactly\<close>
  "safe_integer x = (case x of Num n \<Rightarrow> 0 \<le> n \<and> n < 2 ^ 53 | NonInteger \<Rightarrow> False)"

fun plutus_data :: "data \<Rightarrow> bool" where
  \<comment> \<open>the trees in the form the SDK itself produces: byte arrays in lowercase hexadecimal,
     constructor indices not negative\<close>
  "plutus_data (DInteger n) = True"
| "plutus_data (DBytes s) = hex_bytes s"
| "plutus_data (DArray ds) = (\<forall>d \<in> set ds. plutus_data d)"
| "plutus_data (DMap kvs) = (\<forall>kv \<in> set kvs. plutus_data (fst kv) \<and> plutus_data (snd kv))"
| "plutus_data (Constr i fs) = (0 \<le> i \<and> (\<forall>d \<in> set fs. plutus_data d))"

definition Data_total :: "(data \<Rightarrow> thrown + 'c) \<Rightarrow> bool" where
  \<comment> \<open>the SDK's serializer accepts every tree in its own form\<close>
  "Data_total Data_to = (\<forall>d. plutus_data d \<longrightarrow> (\<exists>c. Data_to d = Inr c))"

definition Data_roundtrip :: "(data \<Rightarrow> thrown + 'c) \<Rightarrow> ('c \<Rightarrow> thrown + data) \<Rightarrow> bool" where
  \<comment> \<open>and its deserializer gives such a tree back\<close>
  "Data_roundtrip Data_to Data_from =
     (\<forall>d. plutus_data d \<longrightarrow> (\<exists>c. Data_to d = Inr c \<and> Data_from c = Inr d))"

definition without_id :: "SPALPolicy \<Rightarrow> SPALPolicy" where
  "without_id p = p\<lparr>id' := []\<rparr>"

subsection \<open>Values of the test suites\<close>

definition testPolicy :: SPALPolicy where
  "testPolicy =
     \<lparr>id' = js ''spal:did:pci:cardano:test:health'',
      ownerPkh = js ''abcd1234abcd1234abcd1234abcd1234abcd1234abcd1234abcd1234'',
      minPayment = 0,
      maxRetentionMs = Num 86400000,
      identityLinkage =
        \<lparr>ephemeralRequired = True, proofOfRootAllowed = True, zkContinuityAllowed = False\<rparr>,
      requiredProofHash = [],
      contextScope = js ''medical/allergies''\<rparr>"

definition validRequest :: ValidationRequest where
  \<comment> \<open>the test suite gives no \<open>policyId\<close> and takes the clock for \<open>accessTime\<close>\<close>
  "validRequest =
     \<lparr>policyId = js ''spal:did:pci:cardano:test:health'',
      requesterDid = js ''did:key:z6MkhaXgBZDvotDkL5257faiztiGiC2QtKLGpbnnEGta2doK'',
      proofReference = [],
      accessTime = Num 1704067200000,
      paymentAmount = 0\<rparr>"

definition webRequest :: ValidationRequest where
  "webRequest = validRequest\<lparr>requesterDid := js ''did:web:example.com:user:abc123''\<rparr>"

definition policyWithPayment :: SPALPolicy where
  "policyWithPayment = testPolicy\<lparr>minPayment := 1000000\<rparr>"

definition requestWithPayment :: ValidationRequest where
  "requestWithPayment = validRequest\<lparr>paymentAmount := 1000000\<rparr>"

definition policyWithProof :: SPALPolicy where
  "policyWithProof = testPolicy\<lparr>requiredProofHash := js ''abcd1234abcd1234''\<rparr>"

definition requestWithProof :: ValidationRequest where
  "requestWithProof = validRequest\<lparr>proofReference := js ''proof_hash_xyz123''\<rparr>"

definition validRedeemer :: data where
  \<comment> \<open>the redeemer that buildAccessRedeemer makes of \<open>validRequest\<close>\<close>
  "validRedeemer =
     Constr 0 [DBytes (stringToHex (requesterDid validRequest)), DBytes [],
               DInteger 1704067200000, DInteger 0]"

definition is_Constr :: "data \<Rightarrow> bool" where
  \<comment> \<open>\<^verbatim>\<open>d instanceof Constr\<close>\<close>
  "is_Constr d = (case d of Constr index fs \<Rightarrow> True | _ \<Rightarrow> False)"

definition encodable :: "SPALPolicy \<Rightarrow> bool" where
  \<comment> \<open>the retention time is an integer and the two byte arrays are in hexadecimal form\<close>
  "encodable p =
     (integral (maxRetentionMs p) \<and> hex_bytes (ownerPkh p) \<and> hex_bytes (requiredProofHash p))"

definition valid_policy :: "SPALPolicy \<Rightarrow> bool" where
  \<comment> \<open>the policies of the specification's data model: a key hash of 28 bytes, an unsigned
     64-bit payment, an unsigned retention time, a byte array and a string that UTF-8 can
     carry\<close>
  "valid_policy p =
     (hex_bytes (ownerPkh p) \<and> length (ownerPkh p) = 56
      \<and> 0 \<le> minPayment p \<and> minPayment p < 2 ^ 64
      \<and> safe_integer (maxRetentionMs p)
      \<and> hex_bytes (requiredProofHash p)
      \<and> well_formed (contextScope p))"

definition bomPolicy :: SPALPolicy where
  \<comment> \<open>the policy of the test suite, its context scope led by U+FEFF\<close>
  "bomPolicy = testPolicy\<lparr>contextScope := 0xFEFF # js ''medical/allergies''\<rparr>"

definition fractionalPolicy :: SPALPolicy where
  \<comment> \<open>the policy of the test suite with a retention time that is not an integer, such as 1.5\<close>
  "fractionalPolicy = testPolicy\<lparr>maxRetentionMs := NonInteger\<rparr>"

section \<open>Properties of the validator\<close>

lemma js_simps: "js [] = []" "js (c # s) = word_of_nat (of_char c) # js s"
  by (simp_all add: js_def)

lemma mentions_ephemeral: "mentions ephemeral_error ''ephemeral''"
  by (simp add: mentions_def ephemeral_error_def js_def ascii_lower_def sublist_Cons_right)

lemma mentions_proof: "mentions proof_error ''proof''"
  by (simp add: mentions_def proof_error_def js_def ascii_lower_def sublist_Cons_right)

lemma payment_error_required: "sublist (bigint_toString a) (payment_error a b)"
  unfolding payment_error_def by (metis sublist_appendI)

lemma payment_error_got: "sublist (bigint_toString b) (payment_error a b)"
  unfolding payment_error_def by (metis append.assoc sublist_appendI append_Nil2)

lemma startsWith_validRequest: "startsWith (requesterDid validRequest) (js ''did:key:z'')"
  by (simp add: startsWith_def validRequest_def js_def)

lemma startsWith_webRequest: "\<not> startsWith (requesterDid webRequest) (js ''did:key:z'')"
  by (simp add: startsWith_def webRequest_def js_def)

lemmas test_values =
  testPolicy_def validRequest_def webRequest_def policyWithPayment_def requestWithPayment_def
  policyWithProof_def requestWithProof_def

text \<open>
  C1. The validator answers \<open>{valid: true}\<close> exactly when the three conditions hold: an
  ephemeral-only policy gets a requester identifier that starts with \<open>did:key:z\<close>; a
  positive minimum payment is met (equality passes, zero asks for nothing); a non-empty
  required proof hash gets a non-empty proof reference. Every other answer has
  \<open>valid = false\<close>.
\<close>

theorem validate_valid_iff:
  "(validate policy request = \<lparr>valid = True, error = None, txHash = None\<rparr> \<longleftrightarrow>
      (ephemeralRequired (identityLinkage policy)
         \<longrightarrow> startsWith (requesterDid request) (js ''did:key:z''))
    \<and> (0 < minPayment policy \<longrightarrow> minPayment policy \<le> paymentAmount request)
    \<and> (requiredProofHash policy \<noteq> [] \<longrightarrow> proofReference request \<noteq> []))
   \<and> (valid (validate policy request)
         \<longleftrightarrow> validate policy request = \<lparr>valid = True, error = None, txHash = None\<rparr>)"
  by (auto simp: validate_def invalid_def truthy_def)

theorem validate_valid_iff_witness:
  "ephemeralRequired (identityLinkage policyWithProof)
   \<and> startsWith (requesterDid requestWithProof) (js ''did:key:z'')
   \<and> requiredProofHash policyWithProof \<noteq> []
   \<and> proofReference requestWithProof \<noteq> []
   \<and> validate policyWithProof requestWithProof = \<lparr>valid = True, error = None, txHash = None\<rparr>
   \<and> 0 < minPayment policyWithPayment
   \<and> minPayment policyWithPayment \<le> paymentAmount requestWithPayment
   \<and> validate policyWithPayment requestWithPayment = \<lparr>valid = True, error = None, txHash = None\<rparr>
   \<and> \<not> valid (validate policyWithPayment validRequest)"
  using validate_valid_iff [of policyWithProof requestWithProof]
    validate_valid_iff [of policyWithPayment requestWithPayment]
    validate_valid_iff [of policyWithPayment validRequest]
    startsWith_validRequest
  by (simp add: test_values js_simps)

lemma nat_toString_not_empty: "nat_toString radix n \<noteq> []"
  by (subst nat_toString.simps) simp

text \<open>
  C7. The checks run in the order identity, payment, proof, and the first one that fails
  gives the reason. A requester that is not ephemeral gets \<open>valid = false\<close> with the
  message about the ephemeral identifier, whatever the payment and the proof are; a
  payment that is too small, with the identity check passed, gets \<open>valid = false\<close> with the
  message that carries the required and the supplied amount, whatever the proof is; a
  missing proof reference, with the two earlier checks passed, gets \<open>valid = false\<close> with
  the message about the proof; and when all pass the answer is valid with no reason. The
  first message mentions "ephemeral", the second holds the decimal digits of both amounts,
  the third mentions "proof", and the three messages differ from one another, so the
  reason tells which check failed.
\<close>

theorem validate_order:
  "(ephemeralRequired (identityLinkage policy)
      \<and> \<not> startsWith (requesterDid request) (js ''did:key:z'')
      \<longrightarrow> validate policy request
            = \<lparr>valid = False,
               error = Some (js ''Ephemeral DID (did:key) required for this policy''),
               txHash = None\<rparr>)
   \<and> ((ephemeralRequired (identityLinkage policy)
          \<longrightarrow> startsWith (requesterDid request) (js ''did:key:z''))
       \<and> 0 < minPayment policy \<and> paymentAmount request < minPayment policy
      \<longrightarrow> validate policy request
            = \<lparr>valid = False,
               error = Some (js ''Insufficient payment: required ''
                             @ bigint_toString (minPayment policy)
                             @ js '', got '' @ bigint_toString (paymentAmount request)),
               txHash = None\<rparr>)
   \<and> ((ephemeralRequired (identityLinkage policy)
          \<longrightarrow> startsWith (requesterDid request) (js ''did:key:z''))
       \<and> (0 < minPayment policy \<longrightarrow> minPayment policy \<le> paymentAmount request)
       \<and> requiredProofHash policy \<noteq> [] \<and> proofReference request = []
      \<longrightarrow> validate policy request
            = \<lparr>valid = False,
               error = Some (js ''Proof reference required but not provided''),
               txHash = None\<rparr>)
   \<and> ((ephemeralRequired (identityLinkage policy)
          \<longrightarrow> startsWith (requesterDid request) (js ''did:key:z''))
       \<and> (0 < minPayment policy \<longrightarrow> minPayment policy \<le> paymentAmount request)
       \<and> (requiredProofHash policy \<noteq> [] \<longrightarrow> proofReference request \<noteq> [])
      \<longrightarrow> validate policy request = \<lparr>valid = True, error = None, txHash = None\<rparr>)
   \<and> mentions (js ''Ephemeral DID (did:key) required for this policy'') ''ephemeral''
   \<and> sublist (bigint_toString (minPayment policy))
        (js ''Insufficient payment: required '' @ bigint_toString (minPayment policy)
         @ js '', got '' @ bigint_toString (paymentAmount request))
   \<and> sublist (bigint_toString (paymentAmount request))
        (js ''Insufficient payment: required '' @ bigint_toString (minPayment policy)
         @ js '', got '' @ bigint_toString (paymentAmount request))
   \<and> bigint_toString (minPayment policy) \<noteq> []
   \<and> bigint_toString (paymentAmount request) \<noteq> []
   \<and> mentions (js ''Proof reference required but not provided'') ''proof''
   \<and> js ''Ephemeral DID (did:key) required for this policy''
       \<noteq> js ''Proof reference required but not provided''
   \<and> js ''Insufficient payment: required '' @ bigint_toString (minPayment policy)
         @ js '', got '' @ bigint_toString (paymentAmount request)
       \<noteq> js ''Ephemeral DID (did:key) required for this policy''
   \<and> js ''Insufficient payment: required '' @ bigint_toString (minPayment policy)
         @ js '', got '' @ bigint_toString (paymentAmount request)
       \<noteq> js ''Proof reference required but not provided''"
proof -
  have outcomes:
    "validate policy request
     = (if ephemeralRequired (identityLinkage policy)
           \<and> \<not> startsWith (requesterDid request) (js ''did:key:z'')
        then \<lparr>valid = False,
               error = Some (js ''Ephemeral DID (did:key) required for this policy''),
               txHash = None\<rparr>
        else if 0 < minPayment policy \<and> paymentAmount request < minPayment policy
        then \<lparr>valid = False,
               error = Some (js ''Insufficient payment: required ''
                             @ bigint_toString (minPayment policy)
                             @ js '', got '' @ bigint_toString (paymentAmount request)),
               txHash = None\<rparr>
        else if requiredProofHash policy \<noteq> [] \<and> proofReference request = []
        then \<lparr>valid = False,
               error = Some (js ''Proof reference required but not provided''),
               txHash = None\<rparr>
        else \<lparr>valid = True, error = None, txHash = None\<rparr>)"
    by (simp add: validate_def invalid_def ephemeral_error_def payment_error_def
        proof_error_def truthy_def)
  have words:
    "mentions (js ''Ephemeral DID (did:key) required for this policy'') ''ephemeral''"
    "mentions (js ''Proof reference required but not provided'') ''proof''"
    using mentions_ephemeral mentions_proof
    by (simp_all add: ephemeral_error_def proof_error_def)
  have amounts:
    "sublist (bigint_toString (minPayment policy))
       (js ''Insufficient payment: required '' @ bigint_toString (minPayment policy)
        @ js '', got '' @ bigint_toString (paymentAmount request))"
    "sublist (bigint_toString (paymentAmount request))
       (js ''Insufficient payment: required '' @ bigint_toString (minPayment policy)
        @ js '', got '' @ bigint_toString (paymentAmount request))"
    using payment_error_required [of "minPayment policy" "paymentAmount request"]
      payment_error_got [of "paymentAmount request" "minPayment policy"]
    by (simp_all add: payment_error_def)
  have digits: "bigint_toString b \<noteq> []" for b
    by (simp add: bigint_toString_def js_simps nat_toString_not_empty)
  have distinct:
    "js ''Ephemeral DID (did:key) required for this policy''
     \<noteq> js ''Proof reference required but not provided''"
    "js ''Insufficient payment: required '' @ x
     \<noteq> js ''Ephemeral DID (did:key) required for this policy''"
    "js ''Insufficient payment: required '' @ x
     \<noteq> js ''Proof reference required but not provided''" for x
    by (simp_all add: js_simps)
  show ?thesis
    unfolding outcomes using words amounts digits distinct by simp
qed

theorem validate_order_witness:
  "validate (policyWithPayment\<lparr>requiredProofHash := js ''abcd1234abcd1234''\<rparr>) webRequest
     = \<lparr>valid = False,
        error = Some (js ''Ephemeral DID (did:key) required for this policy''),
        txHash = None\<rparr>
   \<and> validate (policyWithPayment\<lparr>requiredProofHash := js ''abcd1234abcd1234''\<rparr>) validRequest
     = \<lparr>valid = False,
        error = Some (js ''Insufficient payment: required 1000000, got 0''),
        txHash = None\<rparr>
   \<and> validate policyWithProof validRequest
     = \<lparr>valid = False,
        error = Some (js ''Proof reference required but not provided''),
        txHash = None\<rparr>
   \<and> validate testPolicy validRequest = \<lparr>valid = True, error = None, txHash = None\<rparr>"
proof -
  have amounts: "bigint_toString 1000000 = js ''1000000''" "bigint_toString 0 = js ''0''"
    by (simp_all add: bigint_toString_def js_def nat_toString.simps digit_char_def)
  show ?thesis
    using validate_order [of "policyWithPayment\<lparr>requiredProofHash := js ''abcd1234abcd1234''\<rparr>"
        webRequest]
      validate_order [of "policyWithPayment\<lparr>requiredProofHash := js ''abcd1234abcd1234''\<rparr>"
        validRequest]
      validate_order [of policyWithProof validRequest]
      validate_order [of testPolicy validRequest]
      startsWith_validRequest startsWith_webRequest
    by (simp add: policyWithPayment_def policyWithProof_def testPolicy_def validRequest_def
        webRequest_def amounts js_simps)
qed

text \<open>
  C9. The answer depends on nothing but the linkage flags, the minimum payment, the required
  proof hash, the requester identifier, the payment and whether a proof reference is
  present: the owner, the retention time, the context scope, the policy identifiers, the
  access time and the text of the proof reference have no influence.
\<close>

theorem validate_independent:
  "identityLinkage p1 = identityLinkage p2 \<Longrightarrow> minPayment p1 = minPayment p2 \<Longrightarrow>
   requiredProofHash p1 = requiredProofHash p2 \<Longrightarrow> requesterDid r1 = requesterDid r2 \<Longrightarrow>
   paymentAmount r1 = paymentAmount r2 \<Longrightarrow>
   (proofReference r1 = [] \<longleftrightarrow> proofReference r2 = []) \<Longrightarrow>
   validate p1 r1 = validate p2 r2"
  by (simp add: validate_def truthy_def)

theorem validate_independent_witness:
  "validate policyWithProof requestWithProof
   = validate (policyWithProof\<lparr>id' := js ''other'', ownerPkh := js ''00'',
                 maxRetentionMs := Num 1, contextScope := js ''finance/income''\<rparr>)
       (requestWithProof\<lparr>policyId := js ''other'', accessTime := Num 0,
                          proofReference := js ''another reference''\<rparr>)"
  by (rule validate_independent) (simp_all add: test_values js_simps)

section \<open>Properties of the builders and parsers\<close>

lemma dataToBool_Constr: "dataToBool (Constr k fs) = Inr (k = 1)"
  by (simp add: dataToBool_def)

lemma parseIdentityLinkage_Constr3:
  "parseIdentityLinkage (Constr k [Constr a x, Constr b y, Constr c z])
   = Inr \<lparr>ephemeralRequired = (a = 1), proofOfRootAllowed = (b = 1),
          zkContinuityAllowed = (c = 1)\<rparr>"
  by (simp add: parseIdentityLinkage_def dataToBool_def)

lemma parseIdentityLinkage_build: "parseIdentityLinkage (buildIdentityLinkage l) = Inr l"
  by (simp add: buildIdentityLinkage_def boolToData_def parseIdentityLinkage_Constr3)

lemma parseIdentityLinkage_count:
  "length fs \<noteq> 3 \<Longrightarrow>
   parseIdentityLinkage (Constr k fs) = Inl (WrongFieldCount IdentityLinkage_shape 3 (length fs))"
  by (auto simp: parseIdentityLinkage_def split: list.splits)

lemma parsePolicyDatum_count:
  "length fs \<noteq> 6 \<Longrightarrow>
   parsePolicyDatum (Constr k fs) = Inl (WrongFieldCount PolicyDatum_shape 6 (length fs))"
  by (auto simp: parsePolicyDatum_def split: list.splits)

lemma parsePolicyDatum_linkage_error:
  "parseIdentityLinkage f3 = Inl e \<Longrightarrow>
   parsePolicyDatum (Constr k [f0, f1, f2, f3, f4, f5]) = Inl e"
  by (simp add: parsePolicyDatum_def)

lemma parsePolicyDatum_typed:
  "parsePolicyDatum (Constr k [DBytes owner, DInteger payment, DInteger retention, f3,
                               DBytes proofHash, DBytes scope])
   = (case parseIdentityLinkage f3 of
        Inl e \<Rightarrow> Inl e
      | Inr linkage \<Rightarrow>
          Inr \<lparr>id' = [], ownerPkh = owner, minPayment = payment,
               maxRetentionMs = Number_of_bigint retention, identityLinkage = linkage,
               requiredProofHash = proofHash, contextScope = hexToString scope\<rparr>)"
  by (simp add: parsePolicyDatum_def split: sum.splits)

lemma parsePolicyDatum_id: "parsePolicyDatum d = Inr q \<Longrightarrow> id' q = []"
  by (auto simp: parsePolicyDatum_def split: data.splits list.splits sum.splits)

lemma buildPolicyDatum_without_id: "buildPolicyDatum (without_id p) = buildPolicyDatum p"
  by (simp add: buildPolicyDatum_def without_id_def split: option.splits)

text \<open>
  C3, as the code has it. \<open>false\<close> is encoded as \<open>Constr(0, [])\<close> and \<open>true\<close> as
  \<open>Constr(1, [])\<close>, and decoding gives the boolean back. The decoder of a boolean leaf answers
  \<open>true\<close> for the index 1 and \<open>false\<close> for every other index, whatever the fields of the
  node; it fails only on a node that is not a constructor, with the error "Invalid Bool
  data: expected Constr".
\<close>

theorem boolean_encoding:
  "boolToData False = Constr 0 []
   \<and> boolToData True = Constr 1 []
   \<and> dataToBool (boolToData b) = Inr b
   \<and> dataToBool (Constr k fs) = Inr (k = 1)
   \<and> (dataToBool d = Inl e \<longleftrightarrow> \<not> is_Constr d \<and> e = ExpectedConstr Bool_shape)"
  by (auto simp: boolToData_def dataToBool_def is_Constr_def split: data.splits)

theorem boolean_encoding_witness:
  "dataToBool (boolToData True) = Inr True
   \<and> dataToBool (Constr 5 [DInteger 3]) = Inr False
   \<and> dataToBool (DInteger 1) = Inl (ExpectedConstr Bool_shape)"
  using boolean_encoding [of True 5 "[DInteger 3]" "DInteger 1" "ExpectedConstr Bool_shape"]
  by (simp add: is_Constr_def boolToData_def)

text \<open>
  C3, as the specification has it, fails: a boolean leaf with the constructor index 2 is
  decoded, silently, as \<open>false\<close>, and so is any index other than 1.
\<close>

theorem dataToBool_other_index:
  "dataToBool (Constr 2 []) = Inr False
   \<and> parseIdentityLinkage (Constr 0 [Constr 2 [], Constr 7 [], Constr (- 1) []])
     = Inr \<lparr>ephemeralRequired = False, proofOfRootAllowed = False,
            zkContinuityAllowed = False\<rparr>"
  by (simp add: dataToBool_Constr parseIdentityLinkage_Constr3)

text \<open>
  C4, as the code has it. A constructor node with a number of fields other than 3 is refused
  by parseIdentityLinkage, also when it is the fourth field of a policy datum, and one with
  a number of fields other than 6 is refused by parsePolicyDatum and by deserializeDatum,
  each time with the error that names the expected and the actual number of fields. The
  module decodes nothing else: it has no decoder for an access redeemer.
\<close>

theorem wrong_field_count:
  "(length fs \<noteq> 3 \<longrightarrow>
      parseIdentityLinkage (Constr k fs)
        = Inl (WrongFieldCount IdentityLinkage_shape 3 (length fs))
      \<and> parsePolicyDatum (Constr j [f0, f1, f2, Constr k fs, f4, f5])
        = Inl (WrongFieldCount IdentityLinkage_shape 3 (length fs)))
   \<and> (length fs \<noteq> 6 \<longrightarrow>
      parsePolicyDatum (Constr k fs) = Inl (WrongFieldCount PolicyDatum_shape 6 (length fs))
      \<and> (Data_from c = Inr (Constr k fs) \<longrightarrow>
          deserializeDatum Data_from c
            = Inl (WrongFieldCount PolicyDatum_shape 6 (length fs))))"
  by (simp add: parseIdentityLinkage_count parsePolicyDatum_count parsePolicyDatum_linkage_error
      deserializeDatum_def)

theorem wrong_field_count_witness:
  "parseIdentityLinkage (Constr 0 [Constr 1 [], Constr 0 []])
     = Inl (WrongFieldCount IdentityLinkage_shape 3 2)
   \<and> parsePolicyDatum (Constr 0 [DBytes [], DInteger 0, DInteger 0,
        Constr 0 [Constr 1 [], Constr 0 []], DBytes [], DBytes []])
     = Inl (WrongFieldCount IdentityLinkage_shape 3 2)
   \<and> parsePolicyDatum (Constr 0 [DBytes [], DInteger 0, DInteger 0])
     = Inl (WrongFieldCount PolicyDatum_shape 6 3)
   \<and> deserializeDatum Inr (Constr 0 [DBytes [], DInteger 0, DInteger 0])
     = Inl (WrongFieldCount PolicyDatum_shape 6 3)"
  using wrong_field_count [of "[Constr 1 [], Constr 0 []]" 0 0 "DBytes []" "DInteger 0"
      "DInteger 0" "DBytes []" "DBytes []" Inr "DArray []"]
    wrong_field_count [of "[DBytes [], DInteger 0, DInteger 0]" 0 0 "DBytes []" "DInteger 0"
      "DInteger 0" "DBytes []" "DBytes []" Inr "Constr 0 [DBytes [], DInteger 0, DInteger 0]"]
  by simp

text \<open>
  C4, as the specification has it, fails: no operation of the module decodes an access
  redeemer. The two decoders there are both refuse the well-formed, four-field redeemer that
  buildAccessRedeemer makes of the test suite's request, each for its own number of fields.
\<close>

theorem redeemer_not_decoded:
  "buildAccessRedeemer validRequest = Inr validRedeemer
   \<and> parsePolicyDatum validRedeemer = Inl (WrongFieldCount PolicyDatum_shape 6 4)
   \<and> parseIdentityLinkage validRedeemer = Inl (WrongFieldCount IdentityLinkage_shape 3 4)"
  by (simp add: buildAccessRedeemer_def validRedeemer_def validRequest_def BigInt_def
      or_empty_def truthy_def parsePolicyDatum_count parseIdentityLinkage_count)

text \<open>
  C6. The identifier of a policy is no part of its encoding: two policies that agree on all
  fields but \<open>id\<close> are built into the same tree and serialized to the same output, whatever
  the serializer, and a decoded policy always has the empty identifier, whatever policy the
  datum came from.
\<close>

theorem id_not_encoded:
  "(without_id p1 = without_id p2 \<longrightarrow>
      buildPolicyDatum p1 = buildPolicyDatum p2
      \<and> serializeDatum Data_to p1 = serializeDatum Data_to p2)
   \<and> (parsePolicyDatum d = Inr q \<longrightarrow> id' q = [])
   \<and> (deserializeDatum Data_from c = Inr q' \<longrightarrow> id' q' = [])"
proof -
  have "without_id p1 = without_id p2 \<Longrightarrow> buildPolicyDatum p1 = buildPolicyDatum p2"
    by (metis buildPolicyDatum_without_id)
  moreover have "deserializeDatum Data_from c = Inr q' \<Longrightarrow> id' q' = []"
    by (auto simp: deserializeDatum_def parsePolicyDatum_id split: sum.splits)
  ultimately show ?thesis
    by (auto simp: serializeDatum_def parsePolicyDatum_id)
qed

theorem id_not_encoded_witness:
  "buildPolicyDatum testPolicy = buildPolicyDatum (testPolicy\<lparr>id' := js ''other''\<rparr>)
   \<and> serializeDatum Inr testPolicy = serializeDatum Inr (testPolicy\<lparr>id' := js ''other''\<rparr>)
   \<and> id' \<lparr>id' = [], ownerPkh = js ''00'', minPayment = 5,
          maxRetentionMs = Number_of_bigint 7,
          identityLinkage = \<lparr>ephemeralRequired = True, proofOfRootAllowed = False,
                             zkContinuityAllowed = False\<rparr>,
          requiredProofHash = [], contextScope = hexToString (js ''61'')\<rparr> = []"
  using id_not_encoded [of testPolicy "testPolicy\<lparr>id' := js ''other''\<rparr>" Inr
      "Constr 0 [DBytes (js ''00''), DInteger 5, DInteger 7,
                 Constr 0 [Constr 1 [], Constr 0 [], Constr 0 []], DBytes [], DBytes (js ''61'')]"
      "\<lparr>id' = [], ownerPkh = js ''00'', minPayment = 5,
          maxRetentionMs = Number_of_bigint 7,
          identityLinkage = \<lparr>ephemeralRequired = True, proofOfRootAllowed = False,
                             zkContinuityAllowed = False\<rparr>,
          requiredProofHash = [], contextScope = hexToString (js ''61'')\<rparr>"
      Inr "DInteger 0" "testPolicy"]
  by (simp add: without_id_def testPolicy_def parsePolicyDatum_typed
      parseIdentityLinkage_Constr3)

text \<open>
  C10. The decoders never look at the constructor index of a record node: whatever the
  index, parsePolicyDatum and parseIdentityLinkage answer as they do for the index 0. A
  node with three constructor fields is accepted as an identity linkage and a node with six
  fields of the right types as a policy, under any index.
\<close>

theorem constructor_index_ignored:
  "parsePolicyDatum (Constr k fs) = parsePolicyDatum (Constr 0 fs)
   \<and> parseIdentityLinkage (Constr k fs) = parseIdentityLinkage (Constr 0 fs)
   \<and> parseIdentityLinkage (Constr k [Constr a x, Constr b y, Constr c z])
     = Inr \<lparr>ephemeralRequired = (a = 1), proofOfRootAllowed = (b = 1),
            zkContinuityAllowed = (c = 1)\<rparr>
   \<and> parsePolicyDatum
       (Constr k [DBytes owner, DInteger payment, DInteger retention,
                  Constr j [Constr a x, Constr b y, Constr c z], DBytes proofHash, DBytes scope])
     = Inr \<lparr>id' = [], ownerPkh = owner, minPayment = payment,
            maxRetentionMs = Number_of_bigint retention,
            identityLinkage =
              \<lparr>ephemeralRequired = (a = 1), proofOfRootAllowed = (b = 1),
               zkContinuityAllowed = (c = 1)\<rparr>,
            requiredProofHash = proofHash, contextScope = hexToString scope\<rparr>"
  by (simp add: parsePolicyDatum_typed parseIdentityLinkage_Constr3)
    (simp add: parsePolicyDatum_def parseIdentityLinkage_def)

theorem constructor_index_ignored_witness:
  "parsePolicyDatum (Constr 42 [DBytes [], DInteger 0])
     = parsePolicyDatum (Constr 0 [DBytes [], DInteger 0])
   \<and> parseIdentityLinkage (Constr (- 3) [Constr 1 [], Constr 0 [], Constr 9 []])
     = Inr \<lparr>ephemeralRequired = True, proofOfRootAllowed = False, zkContinuityAllowed = False\<rparr>"
  using constructor_index_ignored [of 42 "[DBytes [], DInteger 0]"]
    constructor_index_ignored [of "- 3" "[]" 1 "[]" 0 "[]" 9 "[]"]
  by simp

section \<open>Properties of the text encoding\<close>

subsection \<open>UTF-8: decoding what was encoded\<close>

lemma mod_add_mult: "r < m \<Longrightarrow> (k * m + r) mod m = (r::nat)"
  by simp

lemma radix64_digits_2:
  fixes x :: nat
  obtains q r where "x = q * 64 + r" "r < 64" "x mod 0x40 = r" "x div 0x40 = q"
  using that [of "x div 0x40" "x mod 0x40"] by simp

lemma radix64_digits_3:
  fixes x :: nat
  obtains q r2 r1 where "x = (q * 64 + r2) * 64 + r1" "r1 < 64" "r2 < 64"
    "x mod 0x40 = r1" "x div 0x40 mod 0x40 = r2" "x div 0x1000 = q"
proof -
  have 1: "x div 0x1000 = x div 0x40 div 0x40" by (simp add: div_mult2_eq)
  have 2: "x = (x div 0x40 div 0x40 * 64 + x div 0x40 mod 0x40) * 64 + x mod 0x40" by simp
  show ?thesis using that [of "x div 0x40 div 0x40" "x div 0x40 mod 0x40" "x mod 0x40"] 1 2
    by simp
qed

lemma radix64_digits_4:
  fixes x :: nat
  obtains q r3 r2 r1 where "x = ((q * 64 + r3) * 64 + r2) * 64 + r1" "r1 < 64" "r2 < 64"
    "r3 < 64" "x mod 0x40 = r1" "x div 0x40 mod 0x40 = r2" "x div 0x1000 mod 0x40 = r3"
    "x div 0x40000 = q"
proof -
  have 1: "x div 0x1000 = x div 0x40 div 0x40" "x div 0x40000 = x div 0x40 div 0x40 div 0x40"
    by (simp_all add: div_mult2_eq)
  have 2: "x = ((x div 0x40 div 0x40 div 0x40 * 64 + x div 0x40 div 0x40 mod 0x40) * 64
                + x div 0x40 mod 0x40) * 64 + x mod 0x40" by simp
  show ?thesis
    using that [of "x div 0x40 div 0x40 div 0x40" "x div 0x40 div 0x40 mod 0x40"
        "x div 0x40 mod 0x40" "x mod 0x40"] 1 2
    by simp
qed

lemma utf8_decode_lead2:
  "2 \<le> q \<Longrightarrow> q < 32 \<Longrightarrow>
   utf8_decode 0 0 0x80 0xBF ((0xC0 + q) # bs) = utf8_decode q 1 0x80 0xBF bs"
  using mod_add_mult [of q 32 6] by simp

lemma utf8_decode_lead3:
  "q < 16 \<Longrightarrow>
   utf8_decode 0 0 0x80 0xBF ((0xE0 + q) # bs)
   = utf8_decode q 2 (if q = 0 then 0xA0 else 0x80) (if q = 13 then 0x9F else 0xBF) bs"
  using mod_add_mult [of q 16 14] by simp

lemma utf8_decode_lead4:
  "q < 5 \<Longrightarrow>
   utf8_decode 0 0 0x80 0xBF ((0xF0 + q) # bs)
   = utf8_decode q 3 (if q = 0 then 0x90 else 0x80) (if q = 4 then 0x8F else 0xBF) bs"
  using mod_add_mult [of q 8 30] by simp

lemma utf8_decode_cont1:
  "r < 64 \<Longrightarrow> lower \<le> 0x80 + r \<Longrightarrow> 0x80 + r \<le> upper \<Longrightarrow>
   utf8_decode c (Suc 0) lower upper ((0x80 + r) # bs)
   = (c * 64 + r) # utf8_decode 0 0 0x80 0xBF bs"
  using utf8_decode.simps(4) [of c 0 lower upper "0x80 + r" bs] mod_add_mult [of r 64 2]
  by simp

lemma utf8_decode_cont2:
  "r < 64 \<Longrightarrow> lower \<le> 0x80 + r \<Longrightarrow> 0x80 + r \<le> upper \<Longrightarrow>
   utf8_decode c 2 lower upper ((0x80 + r) # bs) = utf8_decode (c * 64 + r) 1 0x80 0xBF bs"
  using utf8_decode.simps(4) [of c 1 lower upper "0x80 + r" bs] mod_add_mult [of r 64 2]
  by (simp add: numeral_2_eq_2)

lemma utf8_decode_cont3:
  "r < 64 \<Longrightarrow> lower \<le> 0x80 + r \<Longrightarrow> 0x80 + r \<le> upper \<Longrightarrow>
   utf8_decode c 3 lower upper ((0x80 + r) # bs) = utf8_decode (c * 64 + r) 2 0x80 0xBF bs"
  using utf8_decode.simps(4) [of c 2 lower upper "0x80 + r" bs] mod_add_mult [of r 64 2]
  by (simp add: numeral_3_eq_3 numeral_2_eq_2)

lemma utf8_roundtrip_1:
  "cp \<le> 0x7F \<Longrightarrow>
   utf8_decode 0 0 0x80 0xBF (utf8_encode cp @ bs) = cp # utf8_decode 0 0 0x80 0xBF bs"
  by (simp add: utf8_encode_def)

lemma utf8_roundtrip_2:
  assumes "0x7F < cp" "cp \<le> 0x7FF"
  shows "utf8_decode 0 0 0x80 0xBF (utf8_encode cp @ bs) = cp # utf8_decode 0 0 0x80 0xBF bs"
proof -
  obtain q r where s: "cp = q * 64 + r" "r < 64" "cp mod 0x40 = r" "cp div 0x40 = q"
    by (rule radix64_digits_2)
  have q: "2 \<le> q" "q < 32" using assms s(1,2) by linarith+
  have "utf8_encode cp = [0xC0 + q, 0x80 + r]"
    using assms by (simp add: utf8_encode_def s(3,4))
  then show ?thesis
    using q s(1,2) by (simp add: utf8_decode_lead2 utf8_decode_cont1 del: utf8_decode.simps)
qed

lemma utf8_roundtrip_3:
  assumes "0x7FF < cp" "cp \<le> 0xFFFF" "\<not> is_surrogate cp"
  shows "utf8_decode 0 0 0x80 0xBF (utf8_encode cp @ bs) = cp # utf8_decode 0 0 0x80 0xBF bs"
proof -
  obtain q r2 r1 where s: "cp = (q * 64 + r2) * 64 + r1" "r1 < 64" "r2 < 64"
    "cp mod 0x40 = r1" "cp div 0x40 mod 0x40 = r2" "cp div 0x1000 = q"
    by (rule radix64_digits_3)
  have ns: "cp < 0xD800 \<or> 0xDFFF < cp" using assms(3) by (auto simp: is_surrogate_def)
  have f: "cp = q * 4096 + r2 * 64 + r1" using s(1) by simp
  have q: "q < 16" using assms(2) f by linarith
  have lo: "(if q = 0 then 0xA0 else 0x80) \<le> 0x80 + r2"
    using assms(1) f s(2) by (cases "q = 0") simp_all
  have up: "0x80 + r2 \<le> (if q = 13 then 0x9F else 0xBF)"
    using ns f s(2,3) by (cases "q = 13") auto
  have "utf8_encode cp = [0xE0 + q, 0x80 + r2, 0x80 + r1]"
    using assms by (simp add: utf8_encode_def s(4,5,6))
  then show ?thesis
    using q lo up s(2,3) f
    by (simp add: utf8_decode_lead3 utf8_decode_cont2 utf8_decode_cont1
        del: utf8_decode.simps)
qed

lemma utf8_roundtrip_4:
  assumes "0xFFFF < cp" "cp < 0x110000"
  shows "utf8_decode 0 0 0x80 0xBF (utf8_encode cp @ bs) = cp # utf8_decode 0 0 0x80 0xBF bs"
proof -
  obtain q r3 r2 r1 where s: "cp = ((q * 64 + r3) * 64 + r2) * 64 + r1" "r1 < 64" "r2 < 64"
    "r3 < 64" "cp mod 0x40 = r1" "cp div 0x40 mod 0x40 = r2" "cp div 0x1000 mod 0x40 = r3"
    "cp div 0x40000 = q"
    by (rule radix64_digits_4)
  have f: "cp = q * 262144 + r3 * 4096 + r2 * 64 + r1" using s(1) by simp
  have q: "q < 5" using assms(2) f by linarith
  have lo: "(if q = 0 then 0x90 else 0x80) \<le> 0x80 + r3"
    using assms(1) f s(2,3) by (cases "q = 0") simp_all
  have up: "0x80 + r3 \<le> (if q = 4 then 0x8F else 0xBF)"
    using assms(2) f s(4) by (cases "q = 4") simp_all
  have "utf8_encode cp = [0xF0 + q, 0x80 + r3, 0x80 + r2, 0x80 + r1]"
    using assms by (simp add: utf8_encode_def s(5,6,7,8))
  then show ?thesis
    using q lo up s(2,3,4) f
    by (simp add: utf8_decode_lead4 utf8_decode_cont3 utf8_decode_cont2 utf8_decode_cont1
        del: utf8_decode.simps)
qed

lemma utf8_decode_encode:
  assumes "scalar cp"
  shows "utf8_decode 0 0 0x80 0xBF (utf8_encode cp @ bs) = cp # utf8_decode 0 0 0x80 0xBF bs"
proof -
  consider "cp \<le> 0x7F" | "0x7F < cp" "cp \<le> 0x7FF" | "0x7FF < cp" "cp \<le> 0xFFFF"
    | "0xFFFF < cp"
    by linarith
  then show ?thesis
    using assms by cases (simp_all add: utf8_roundtrip_1 utf8_roundtrip_2 utf8_roundtrip_3 utf8_roundtrip_4 scalar_def)
qed

lemma utf8_decode_concat:
  "list_all scalar cps \<Longrightarrow> utf8_decode 0 0 0x80 0xBF (concat (map utf8_encode cps)) = cps"
  by (induction cps) (simp_all add: utf8_decode_encode)

subsection \<open>UTF-16: scalar values and code units\<close>

lemma unat_unit_less: "unat (u :: 16 word) < 0x10000"
  using unsigned_less [of u, where ?'a = nat] by simp

lemma scalar_lone_unit: "scalar (lone_unit u)"
  using unat_unit_less [of u] by (simp add: lone_unit_def scalar_def is_surrogate_def)

lemma scalar_pair:
  "is_lead a \<Longrightarrow> is_trail b \<Longrightarrow> scalar (0x10000 + (a - 0xD800) * 0x400 + (b - 0xDC00))"
  unfolding is_lead_def is_trail_def scalar_def is_surrogate_def by linarith

lemma scalar_values_scalar: "list_all scalar (scalar_values s)"
  by (induction s rule: scalar_values.induct) (simp_all add: scalar_lone_unit scalar_pair)

lemma utf8_decode_TextEncoder:
  "utf8_decode 0 0 0x80 0xBF (TextEncoder_encode s) = scalar_values s"
  by (simp add: TextEncoder_encode_def utf8_decode_concat scalar_values_scalar)

lemma utf16_encode_unit:
  "\<not> is_surrogate (unat u) \<Longrightarrow> utf16_encode (lone_unit u) = [u]"
  using unat_unit_less [of u] by (simp add: utf16_encode_def lone_unit_def)

lemma utf16_encode_pair:
  assumes "is_lead (unat u)" "is_trail (unat v)"
  shows "utf16_encode (0x10000 + (unat u - 0xD800) * 0x400 + (unat v - 0xDC00)) = [u, v]"
proof -
  define a where "a = unat u - 0xD800"
  define b where "b = unat v - 0xDC00"
  have b: "b < 0x400" using assms(2) unfolding b_def is_trail_def by linarith
  have u: "0xD800 + a = unat u" using assms(1) unfolding a_def is_lead_def by linarith
  have v: "0xDC00 + b = unat v" using assms(2) unfolding b_def is_trail_def by linarith
  have d: "(a * 0x400 + b) div 0x400 = a" "(a * 0x400 + b) mod 0x400 = b" using b by simp_all
  have "utf16_encode (0x10000 + a * 0x400 + b)
        = [word_of_nat (0xD800 + a), word_of_nat (0xDC00 + b)]"
    using d by (simp add: utf16_encode_def add.assoc)
  then show ?thesis unfolding u v by (simp add: a_def b_def)
qed

lemma utf16_encode_scalar_values:
  "well_formed s \<Longrightarrow> concat (map utf16_encode (scalar_values s)) = s"
  by (induction s rule: scalar_values.induct)
    (simp_all add: utf16_encode_unit utf16_encode_pair)

lemma scalar_values_inj:
  "well_formed s \<Longrightarrow> well_formed t \<Longrightarrow> scalar_values s = scalar_values t \<Longrightarrow> s = t"
  by (metis utf16_encode_scalar_values)

lemma TextEncoder_encode_inj:
  "well_formed s \<Longrightarrow> well_formed t \<Longrightarrow> TextEncoder_encode s = TextEncoder_encode t \<Longrightarrow> s = t"
  by (metis scalar_values_inj utf8_decode_TextEncoder)

lemma unat_BOM: "unat (u :: 16 word) = 0xFEFF \<longleftrightarrow> u = 0xFEFF"
  by (simp add: word_unat_eq_iff)

lemma lone_unit_BOM: "lone_unit u = 0xFEFF \<longleftrightarrow> u = 0xFEFF"
  by (auto simp: lone_unit_def unat_BOM is_surrogate_def)

lemma strip_BOM_scalar_values:
  "\<not> starts_with_BOM s \<Longrightarrow> strip_BOM (scalar_values s) = scalar_values s"
  by (induction s rule: scalar_values.induct)
    (simp_all add: strip_BOM_def starts_with_BOM_def lone_unit_BOM)

lemma TextDecoder_TextEncoder:
  "TextDecoder_decode (TextEncoder_encode s)
   = concat (map utf16_encode (strip_BOM (scalar_values s)))"
  by (simp add: TextDecoder_decode_def utf8_decode_TextEncoder)

subsection \<open>Hexadecimal: stringToHex and hexToString\<close>

lemma below_16:
  "d < (16::nat) \<Longrightarrow>
   d = 0 \<or> d = 1 \<or> d = 2 \<or> d = 3 \<or> d = 4 \<or> d = 5 \<or> d = 6 \<or> d = 7 \<or> d = 8 \<or> d = 9
   \<or> d = 10 \<or> d = 11 \<or> d = 12 \<or> d = 13 \<or> d = 14 \<or> d = 15"
  by (simp add: less_Suc_eq numeral_eq_Suc)

lemma digit_char_hex: "d < 16 \<Longrightarrow> is_hex_digit (digit_char d)"
  using below_16 [of d] by (auto simp: digit_char_def is_hex_digit_def)

lemma hex_value_digit_char: "d < 16 \<Longrightarrow> hex_value (digit_char d) = Some d"
  using below_16 [of d] by (auto simp: digit_char_def hex_value_def)

lemma digit_char_plain:
  "d < 16 \<Longrightarrow>
   \<not> is_LineTerminator (digit_char d) \<and> \<not> is_WhiteSpace (digit_char d)
   \<and> digit_char d \<noteq> 0x2B \<and> digit_char d \<noteq> 0x2D
   \<and> digit_char d \<noteq> 0x78 \<and> digit_char d \<noteq> 0x58"
  using below_16 [of d] by (auto simp: digit_char_def is_LineTerminator_def is_WhiteSpace_def)

lemma byte_toString:
  assumes "b < 256"
  shows "padStart 2 0x30 (nat_toString 16 b) = [digit_char (b div 16), digit_char (b mod 16)]"
proof (cases "b < 16")
  case True
  then show ?thesis
    by (simp add: nat_toString.simps [of 16 b] padStart_def digit_char_def)
next
  case False
  have "b div 16 < 16" using assms by (simp add: less_mult_imp_div_less)
  then show ?thesis using False
    by (simp add: nat_toString.simps [of 16 b] nat_toString.simps [of 16 "b div 16"] padStart_def)
qed

lemma parseInt16_digits:
  assumes "h < 16" "l < 16"
  shows "ToUint8 (parseInt16 [digit_char h, digit_char l]) = 16 * h + l"
  using digit_char_plain [OF assms(1)] digit_char_plain [OF assms(2)] assms
  by (simp add: parseInt16_def ToUint8_def hex_value_digit_char)

lemma match_chunks_digits:
  "list_all (\<lambda>b. b < 256) bytes \<Longrightarrow>
   match_chunks (concat (map (\<lambda>b. [digit_char (b div 16), digit_char (b mod 16)]) bytes))
   = map (\<lambda>b. [digit_char (b div 16), digit_char (b mod 16)]) bytes"
proof (induction bytes)
  case Nil
  then show ?case by simp
next
  case (Cons b bytes)
  have "b div 16 < 16" using Cons.prems by (simp add: less_mult_imp_div_less)
  then show ?case
    using Cons digit_char_plain [of "b div 16"] digit_char_plain [of "b mod 16"] by simp
qed

lemma stringToHex_bytes:
  "list_all (\<lambda>b. b < 256) bytes \<Longrightarrow>
   concat (map (\<lambda>b. padStart 2 0x30 (nat_toString 16 b)) bytes)
   = concat (map (\<lambda>b. [digit_char (b div 16), digit_char (b mod 16)]) bytes)"
  by (induction bytes) (simp_all add: byte_toString)

lemma bytes_of_hex:
  assumes "list_all (\<lambda>b. b < 256) bytes"
  shows "map (\<lambda>byte. ToUint8 (parseInt16 byte))
           (match_chunks (concat (map (\<lambda>b. padStart 2 0x30 (nat_toString 16 b)) bytes)))
         = bytes"
proof -
  have "map (\<lambda>byte. ToUint8 (parseInt16 byte))
          (map (\<lambda>b. [digit_char (b div 16), digit_char (b mod 16)]) bytes) = bytes"
    using assms
  proof (induction bytes)
    case Nil
    then show ?case by simp
  next
    case (Cons b bytes)
    have "b div 16 < 16" using Cons.prems by (simp add: less_mult_imp_div_less)
    then show ?case using Cons by (simp add: parseInt16_digits)
  qed
  then show ?thesis using assms by (simp add: stringToHex_bytes match_chunks_digits)
qed

lemma hex_bytes_digits:
  "list_all (\<lambda>b. b < 256) bytes \<Longrightarrow>
   hex_bytes (concat (map (\<lambda>b. [digit_char (b div 16), digit_char (b mod 16)]) bytes))"
proof (induction bytes)
  case Nil
  then show ?case by (simp add: hex_bytes_def)
next
  case (Cons b bytes)
  have "b div 16 < 16" using Cons.prems by (simp add: less_mult_imp_div_less)
  then show ?case using Cons by (simp add: hex_bytes_def digit_char_hex)
qed

lemma utf8_encode_bytes:
  assumes "scalar cp"
  shows "list_all (\<lambda>b. b < 256) (utf8_encode cp)"
proof -
  have c: "cp < 0x110000" using assms by (simp add: scalar_def)
  have m: "cp mod 0x40 < 0x40" "cp div 0x40 mod 0x40 < 0x40" "cp div 0x1000 mod 0x40 < 0x40"
    by simp_all
  consider "cp \<le> 0x7F" | "0x7F < cp" "cp \<le> 0x7FF" | "0x7FF < cp" "cp \<le> 0xFFFF"
    | "0xFFFF < cp"
    by linarith
  then show ?thesis
  proof cases
    case 1
    then show ?thesis by (simp add: utf8_encode_def)
  next
    case 2
    then have "cp div 0x40 < 0x20" by (simp add: less_mult_imp_div_less)
    then show ?thesis using 2 m(1) by (simp add: utf8_encode_def del: mod_less_divisor)
  next
    case 3
    then have "cp div 0x1000 < 0x10" by (simp add: less_mult_imp_div_less)
    then show ?thesis using 3 m(1,2) by (simp add: utf8_encode_def del: mod_less_divisor)
  next
    case 4
    have "cp div 0x40000 < 5" using c by (simp add: less_mult_imp_div_less)
    then show ?thesis using 4 m by (simp add: utf8_encode_def del: mod_less_divisor)
  qed
qed

lemma utf8_encode_all_bytes:
  "list_all scalar cps \<Longrightarrow> list_all (\<lambda>b. b < 256) (concat (map utf8_encode cps))"
  by (induction cps) (simp_all add: utf8_encode_bytes)

lemma TextEncoder_bytes: "list_all (\<lambda>b. b < 256) (TextEncoder_encode s)"
  by (simp add: TextEncoder_encode_def utf8_encode_all_bytes scalar_values_scalar)

lemma hex_bytes_stringToHex: "hex_bytes (stringToHex s)"
  by (simp add: stringToHex_def stringToHex_bytes hex_bytes_digits TextEncoder_bytes)

lemma bytes_of_stringToHex:
  "map (\<lambda>byte. ToUint8 (parseInt16 byte)) (match_chunks (stringToHex s)) = TextEncoder_encode s"
  by (simp add: stringToHex_def bytes_of_hex TextEncoder_bytes)

lemma hexToString_stringToHex:
  "hexToString (stringToHex s) = concat (map utf16_encode (strip_BOM (scalar_values s)))"
  by (simp add: hexToString_def bytes_of_stringToHex TextDecoder_TextEncoder)

lemma hexToString_stringToHex_id:
  "well_formed s \<Longrightarrow> \<not> starts_with_BOM s \<Longrightarrow> hexToString (stringToHex s) = s"
  by (simp add: hexToString_stringToHex strip_BOM_scalar_values utf16_encode_scalar_values)

lemma stringToHex_inj:
  "well_formed s \<Longrightarrow> well_formed t \<Longrightarrow> stringToHex s = stringToHex t \<Longrightarrow> s = t"
  by (metis bytes_of_stringToHex TextEncoder_encode_inj)

subsection \<open>Numbers, literals and the policy datum\<close>

lemma bit_length_le: "n < 2 ^ k \<Longrightarrow> bit_length n \<le> k"
proof (induction k arbitrary: n)
  case 0
  then show ?case by (simp add: bit_length.simps)
next
  case (Suc k)
  from Suc.prems have "n div 2 < 2 ^ k" by simp
  then have "bit_length (n div 2) \<le> k" by (rule Suc.IH)
  then show ?case by (simp add: bit_length.simps [of n])
qed

lemma Number_of_bigint_safe:
  assumes "0 \<le> n" "n < 2 ^ 53"
  shows "Number_of_bigint n = Num n"
proof -
  have a: "nat \<bar>n\<bar> = nat n" using assms(1) by simp
  have b: "nat n < 2 ^ 53" using assms by (simp add: nat_less_iff)
  then have e: "bit_length (nat n) - 53 = 0" using bit_length_le by simp
  have "\<not> (2::nat) ^ 1024 \<le> nat n" using b by simp
  moreover have "sgn n * int (nat n) = n" using assms(1) by (cases "n = 0") simp_all
  ultimately show ?thesis
    unfolding Number_of_bigint_def Let_def a e by simp
qed

lemma Number_of_BigInt: "safe_integer x \<Longrightarrow> BigInt x = Some n \<Longrightarrow> Number_of_bigint n = x"
  by (auto simp: safe_integer_def BigInt_def Number_of_bigint_safe split: number.splits)

lemma well_formed_no_surrogate:
  "list_all (\<lambda>u. \<not> is_surrogate (unat u)) s \<Longrightarrow> well_formed s"
  by (induction s rule: well_formed.induct) (auto simp: is_lead_def is_surrogate_def)

lemma js_no_surrogate: "list_all (\<lambda>u. \<not> is_surrogate (unat u)) (js s)"
proof (induction s)
  case Nil
  then show ?case by (simp add: js_def)
next
  case (Cons c s)
  have "(of_char c :: nat) < 256" by simp
  moreover from this have "(of_char c :: nat) < 65536" by linarith
  ultimately have "unat (word_of_nat (of_char c) :: 16 word) < 256"
    by (simp add: unat_of_nat)
  then show ?case using Cons by (simp add: js_simps is_surrogate_def)
qed

lemma well_formed_js: "well_formed (js s)"
  by (simp add: well_formed_no_surrogate js_no_surrogate)

lemma hexToString_BOM:
  assumes "well_formed s"
  shows "hexToString (stringToHex (0xFEFF # s)) = s"
proof -
  have "scalar_values (0xFEFF # s) = 0xFEFF # scalar_values s"
    by (cases s) (simp_all add: lone_unit_def is_surrogate_def is_lead_def)
  then show ?thesis using assms
    by (simp add: hexToString_stringToHex strip_BOM_def utf16_encode_scalar_values)
qed

lemma or_empty_id: "or_empty s = s"
  by (simp add: or_empty_def truthy_def)

lemma plutus_data_linkage: "plutus_data (buildIdentityLinkage l)"
  by (simp add: buildIdentityLinkage_def boolToData_def)

lemma buildIdentityLinkage_inj: "buildIdentityLinkage k = buildIdentityLinkage l \<Longrightarrow> k = l"
  by (cases k; cases l) (auto simp: buildIdentityLinkage_def boolToData_def split: if_splits)

lemma buildPolicyDatum_encodable:
  assumes "encodable p"
  obtains d where "buildPolicyDatum p = Inr d" "plutus_data d"
proof -
  obtain n where n: "maxRetentionMs p = Num n"
    using assms by (cases "maxRetentionMs p") (simp_all add: encodable_def integral_def)
  show ?thesis
    using assms n
    by (intro that [of "Constr 0 [DBytes (ownerPkh p), DInteger (minPayment p), DInteger n,
          buildIdentityLinkage (identityLinkage p), DBytes (or_empty (requiredProofHash p)),
          DBytes (stringToHex (contextScope p))]"])
      (simp_all add: buildPolicyDatum_def BigInt_def encodable_def or_empty_id
        plutus_data_linkage hex_bytes_stringToHex)
qed

lemma buildPolicyDatum_inj:
  assumes "buildPolicyDatum p1 = Inr d" "buildPolicyDatum p2 = Inr d"
    "well_formed (contextScope p1)" "well_formed (contextScope p2)"
  shows "without_id p1 = without_id p2"
proof -
  obtain n1 where n1: "maxRetentionMs p1 = Num n1"
    using assms(1) by (cases "maxRetentionMs p1") (simp_all add: buildPolicyDatum_def BigInt_def)
  obtain n2 where n2: "maxRetentionMs p2 = Num n2"
    using assms(2) by (cases "maxRetentionMs p2") (simp_all add: buildPolicyDatum_def BigInt_def)
  have eq: "ownerPkh p1 = ownerPkh p2" "minPayment p1 = minPayment p2" "n1 = n2"
    "buildIdentityLinkage (identityLinkage p1) = buildIdentityLinkage (identityLinkage p2)"
    "requiredProofHash p1 = requiredProofHash p2"
    "stringToHex (contextScope p1) = stringToHex (contextScope p2)"
    using assms(1,2) n1 n2 by (auto simp: buildPolicyDatum_def BigInt_def or_empty_id)
  have "contextScope p1 = contextScope p2"
    using eq(6) assms(3,4) by (rule stringToHex_inj [rotated 2])
  moreover have "identityLinkage p1 = identityLinkage p2"
    using eq(4) by (rule buildIdentityLinkage_inj)
  ultimately show ?thesis
    using eq(1,2,3,5) n1 n2 by (cases p1; cases p2) (simp add: without_id_def)
qed

text \<open>
  What does hold of the round trip: a policy whose byte arrays are in hexadecimal form,
  whose retention time is an unsigned integer below \<open>2 ^ 53\<close> and whose context scope is
  well formed and does not begin with U+FEFF comes back from deserializeDatum as it was,
  but for its identifier, through any serializer that round-trips.
\<close>

lemma policy_roundtrip:
  assumes "Data_roundtrip Data_to Data_from"
    and "encodable p" and "safe_integer (maxRetentionMs p)"
    and "well_formed (contextScope p)" and "\<not> starts_with_BOM (contextScope p)"
  shows "\<exists>c. serializeDatum Data_to p = Inr c \<and> deserializeDatum Data_from c = Inr (without_id p)"
proof -
  obtain n where n: "maxRetentionMs p = Num n"
    using assms(3) by (cases "maxRetentionMs p") (simp_all add: safe_integer_def)
  define d where "d = Constr 0 [DBytes (ownerPkh p), DInteger (minPayment p), DInteger n,
          buildIdentityLinkage (identityLinkage p), DBytes (requiredProofHash p),
          DBytes (stringToHex (contextScope p))]"
  have b: "buildPolicyDatum p = Inr d"
    by (simp add: buildPolicyDatum_def BigInt_def n d_def or_empty_id)
  have "plutus_data d"
    using assms(2) by (simp add: d_def encodable_def plutus_data_linkage hex_bytes_stringToHex)
  then obtain c where c: "Data_to d = Inr c" "Data_from c = Inr d"
    using assms(1) unfolding Data_roundtrip_def by blast
  have "Number_of_bigint n = Num n"
    using assms(3) n by (simp add: safe_integer_def Number_of_bigint_safe)
  then have "parsePolicyDatum d = Inr (without_id p)"
    using assms(4,5) n
    by (cases p) (simp add: d_def parsePolicyDatum_typed parseIdentityLinkage_build
        hexToString_stringToHex_id without_id_def)
  then show ?thesis
    by (simp add: serializeDatum_def deserializeDatum_def b c)
qed

section \<open>Properties of serialization\<close>

text \<open>
  The assumptions on the SDK can be met: the serializer that leaves a tree as it is
  accepts every tree and round-trips.
\<close>

lemma Data_roundtrip_Inr: "Data_roundtrip Inr Inr"
  by (simp add: Data_roundtrip_def)

lemma Data_total_Inr: "Data_total Inr"
  by (simp add: Data_total_def)

lemma encodable_testPolicy: "encodable testPolicy"
  by (simp add: encodable_def testPolicy_def integral_def hex_bytes_def js_def is_hex_digit_def)

lemma stringToHex_lone_surrogate: "stringToHex [0xD800] = js ''efbfbd''"
  by (simp add: stringToHex_def TextEncoder_encode_def lone_unit_def is_surrogate_def
      utf8_encode_def padStart_def nat_toString.simps digit_char_def js_def)

lemma stringToHex_replacement: "stringToHex [0xFFFD] = js ''efbfbd''"
  by (simp add: stringToHex_def TextEncoder_encode_def lone_unit_def is_surrogate_def
      utf8_encode_def padStart_def nat_toString.simps digit_char_def js_def)

lemma valid_policy_roundtrip:
  "Data_roundtrip Data_to Data_from \<Longrightarrow> valid_policy p \<Longrightarrow>
   \<not> starts_with_BOM (contextScope p) \<Longrightarrow>
   \<exists>c. serializeDatum Data_to p = Inr c \<and> deserializeDatum Data_from c = Inr (without_id p)"
  by (rule policy_roundtrip)
    (auto simp: valid_policy_def encodable_def safe_integer_def integral_def
      split: number.splits)

lemma valid_bomPolicy: "valid_policy bomPolicy"
proof -
  have "hex_bytes (ownerPkh bomPolicy) \<and> hex_bytes (requiredProofHash bomPolicy)"
    using encodable_testPolicy by (simp add: encodable_def bomPolicy_def)
  moreover have "safe_integer (maxRetentionMs bomPolicy) \<and> length (ownerPkh bomPolicy) = 56
      \<and> 0 \<le> minPayment bomPolicy \<and> minPayment bomPolicy < 2 ^ 64"
    by (simp add: bomPolicy_def testPolicy_def safe_integer_def js_def)
  moreover have "well_formed (contextScope bomPolicy)"
    using well_formed_js [of "''medical/allergies''"]
    by (simp add: bomPolicy_def js_simps is_surrogate_def is_lead_def
        well_formed.simps(3) [of "0xFEFF"])
  ultimately show ?thesis by (simp add: valid_policy_def)
qed

lemma bomPolicy_datum:
  obtains d where "buildPolicyDatum bomPolicy = Inr d" "plutus_data d"
    "parsePolicyDatum d = Inr (without_id testPolicy)"
proof -
  let ?d = "Constr 0 [DBytes (ownerPkh testPolicy), DInteger 0, DInteger 86400000,
              buildIdentityLinkage (identityLinkage testPolicy), DBytes [],
              DBytes (stringToHex (0xFEFF # js ''medical/allergies''))]"
  have h: "hexToString (stringToHex (0xFEFF # js ''medical/allergies'')) = js ''medical/allergies''"
    by (rule hexToString_BOM) (rule well_formed_js)
  have 1: "buildPolicyDatum bomPolicy = Inr ?d"
    by (simp add: buildPolicyDatum_def bomPolicy_def testPolicy_def BigInt_def or_empty_id)
  have "hex_bytes []" by (simp add: hex_bytes_def)
  then have 2: "plutus_data ?d"
    using encodable_testPolicy
    by (simp add: encodable_def plutus_data_linkage hex_bytes_stringToHex)
  have 3: "parsePolicyDatum ?d = Inr (without_id testPolicy)"
    by (simp add: parsePolicyDatum_typed parseIdentityLinkage_build h Number_of_bigint_safe
        without_id_def testPolicy_def)
  show ?thesis using 1 2 3 by (rule that)
qed

lemma bomPolicy_any_serializer:
  assumes "Data_roundtrip Data_to Data_from"
  shows "\<exists>c. serializeDatum Data_to bomPolicy = Inr c
             \<and> deserializeDatum Data_from c = Inr (without_id testPolicy)"
proof -
  obtain d where d: "buildPolicyDatum bomPolicy = Inr d" "plutus_data d"
    "parsePolicyDatum d = Inr (without_id testPolicy)"
    by (rule bomPolicy_datum)
  obtain c where "Data_to d = Inr c" "Data_from c = Inr d"
    using assms d(2) unfolding Data_roundtrip_def by blast
  then show ?thesis by (simp add: serializeDatum_def deserializeDatum_def d(1,3))
qed

text \<open>
  C2 fails on the code. The policy of the test suite with U+FEFF put before its context
  scope is a valid policy, and building its datum and parsing that again, or serializing
  and deserializing it, gives a policy whose context scope has lost the leading U+FEFF:
  the decoder in hexToString is made without \<open>ignoreBOM\<close> and drops it. By
  \<open>bomPolicy_any_serializer\<close> the same happens through every serializer that round-trips.
\<close>

theorem roundtrip_loses_BOM:
  "valid_policy bomPolicy
   \<and> (case buildPolicyDatum bomPolicy of Inl e \<Rightarrow> Inl e | Inr d \<Rightarrow> parsePolicyDatum d)
     = Inr (without_id testPolicy)
   \<and> (case serializeDatum Inr bomPolicy of Inl e \<Rightarrow> Inl e | Inr c \<Rightarrow> deserializeDatum Inr c)
     = Inr (without_id testPolicy)
   \<and> contextScope (without_id testPolicy) \<noteq> contextScope bomPolicy"
proof -
  obtain d where d: "buildPolicyDatum bomPolicy = Inr d"
    "parsePolicyDatum d = Inr (without_id testPolicy)"
    using bomPolicy_datum by blast
  have "contextScope (without_id testPolicy) \<noteq> contextScope bomPolicy"
    by (simp add: without_id_def testPolicy_def bomPolicy_def js_simps)
  then show ?thesis
    using valid_bomPolicy by (simp add: d serializeDatum_def deserializeDatum_def)
qed

text \<open>
  C5, as the code has it. Two policies whose retention times are integers, whose byte arrays
  are in hexadecimal form and whose context scopes are well formed, and which differ in a
  field other than \<open>id\<close>, are built into different trees and serialized to different
  outputs by any serializer that round-trips. Two policies that differ in their context
  scopes only are a case of this.
\<close>

theorem encoding_injective:
  assumes "Data_roundtrip Data_to Data_from"
    and "encodable p1" and "encodable p2"
    and "well_formed (contextScope p1)" and "well_formed (contextScope p2)"
    and "without_id p1 \<noteq> without_id p2"
  shows "buildPolicyDatum p1 \<noteq> buildPolicyDatum p2
         \<and> serializeDatum Data_to p1 \<noteq> serializeDatum Data_to p2"
proof -
  obtain d1 where d1: "buildPolicyDatum p1 = Inr d1" "plutus_data d1"
    using assms(2) by (rule buildPolicyDatum_encodable)
  obtain d2 where d2: "buildPolicyDatum p2 = Inr d2" "plutus_data d2"
    using assms(3) by (rule buildPolicyDatum_encodable)
  have ne: "d1 \<noteq> d2"
    using buildPolicyDatum_inj [OF d1(1) _ assms(4,5)] d2(1) assms(6) by auto
  obtain c1 where c1: "Data_to d1 = Inr c1" "Data_from c1 = Inr d1"
    using assms(1) d1(2) unfolding Data_roundtrip_def by blast
  obtain c2 where c2: "Data_to d2 = Inr c2" "Data_from c2 = Inr d2"
    using assms(1) d2(2) unfolding Data_roundtrip_def by blast
  have "c1 \<noteq> c2" using c1(2) c2(2) ne by auto
  then show ?thesis
    using ne by (simp add: serializeDatum_def d1(1) d2(1) c1(1) c2(1))
qed


theorem encoding_injective_witness:
  "Data_roundtrip Inr Inr
   \<and> encodable testPolicy \<and> encodable (testPolicy\<lparr>contextScope := js ''finance/income''\<rparr>)
   \<and> well_formed (contextScope testPolicy)
   \<and> well_formed (contextScope (testPolicy\<lparr>contextScope := js ''finance/income''\<rparr>))
   \<and> without_id testPolicy \<noteq> without_id (testPolicy\<lparr>contextScope := js ''finance/income''\<rparr>)
   \<and> serializeDatum Inr testPolicy
     \<noteq> serializeDatum Inr (testPolicy\<lparr>contextScope := js ''finance/income''\<rparr>)"
proof -
  have 1: "encodable (testPolicy\<lparr>contextScope := js ''finance/income''\<rparr>)"
    using encodable_testPolicy by (simp add: encodable_def)
  have 2: "well_formed (contextScope testPolicy)"
    by (simp add: testPolicy_def well_formed_js)
  have 3: "well_formed (contextScope (testPolicy\<lparr>contextScope := js ''finance/income''\<rparr>))"
    by (simp add: well_formed_js)
  have 4: "without_id testPolicy
           \<noteq> without_id (testPolicy\<lparr>contextScope := js ''finance/income''\<rparr>)"
    by (simp add: without_id_def testPolicy_def js_simps)
  show ?thesis
    using encoding_injective [OF Data_roundtrip_Inr encodable_testPolicy 1 2 3 4]
      Data_roundtrip_Inr encodable_testPolicy 1 2 3 4
    by simp
qed

text \<open>
  C5, as the specification has it, fails: two policies that differ in \<open>id\<close> only have the
  same encoding, and so have two policies that differ only in a context scope that is not
  well formed, here an unpaired surrogate and U+FFFD.
\<close>

theorem policies_encoded_alike:
  "testPolicy \<noteq> testPolicy\<lparr>id' := js ''other''\<rparr>
   \<and> buildPolicyDatum testPolicy = buildPolicyDatum (testPolicy\<lparr>id' := js ''other''\<rparr>)
   \<and> serializeDatum Inr testPolicy = serializeDatum Inr (testPolicy\<lparr>id' := js ''other''\<rparr>)
   \<and> testPolicy\<lparr>contextScope := [0xD800]\<rparr> \<noteq> testPolicy\<lparr>contextScope := [0xFFFD]\<rparr>
   \<and> buildPolicyDatum (testPolicy\<lparr>contextScope := [0xD800]\<rparr>)
     = buildPolicyDatum (testPolicy\<lparr>contextScope := [0xFFFD]\<rparr>)
   \<and> serializeDatum Inr (testPolicy\<lparr>contextScope := [0xD800]\<rparr>)
     = serializeDatum Inr (testPolicy\<lparr>contextScope := [0xFFFD]\<rparr>)"
proof -
  have 1: "buildPolicyDatum (testPolicy\<lparr>id' := js ''other''\<rparr>) = buildPolicyDatum testPolicy"
    by (simp add: buildPolicyDatum_def split: option.splits)
  have 2: "buildPolicyDatum (testPolicy\<lparr>contextScope := [0xD800]\<rparr>)
           = buildPolicyDatum (testPolicy\<lparr>contextScope := [0xFFFD]\<rparr>)"
    by (simp add: buildPolicyDatum_def stringToHex_lone_surrogate stringToHex_replacement
        split: option.splits)
  show ?thesis
    by (simp add: 1 2 serializeDatum_def) (simp add: testPolicy_def js_simps)
qed

text \<open>
  C8, as the code has it. Building the datum fails exactly when the retention time is not an
  integer, with the RangeError of BigInt. The context scope never makes the encoding fail:
  stringToHex is total and gives the hexadecimal form of a byte array for every string, an
  unpaired surrogate being encoded as U+FFFD. A policy with an integral retention time and
  byte arrays in hexadecimal form is built into a tree in the SDK's own form, and is
  serialized by any serializer that accepts such trees.
\<close>

theorem encoding_succeeds:
  "(buildPolicyDatum p = Inl e \<longleftrightarrow> \<not> integral (maxRetentionMs p) \<and> e = RangeError)
   \<and> hex_bytes (stringToHex s)
   \<and> (encodable p \<longrightarrow> (\<exists>d. buildPolicyDatum p = Inr d \<and> plutus_data d))
   \<and> (encodable p \<and> Data_total Data_to \<longrightarrow> (\<exists>c. serializeDatum Data_to p = Inr c))"
proof -
  have 1: "buildPolicyDatum p = Inl e \<longleftrightarrow> \<not> integral (maxRetentionMs p) \<and> e = RangeError"
    by (cases "maxRetentionMs p") (auto simp: buildPolicyDatum_def BigInt_def integral_def)
  have 2: "\<exists>d. buildPolicyDatum p = Inr d \<and> plutus_data d" if "encodable p"
    using that buildPolicyDatum_encodable by blast
  have 3: "\<exists>c. serializeDatum Data_to p = Inr c"
    if enc: "encodable p" and total: "Data_total Data_to"
  proof -
    obtain d where "buildPolicyDatum p = Inr d" "plutus_data d"
      using enc by (rule buildPolicyDatum_encodable)
    then show ?thesis using total by (simp add: serializeDatum_def Data_total_def)
  qed
  show ?thesis using 1 2 3 hex_bytes_stringToHex by blast
qed


theorem encoding_succeeds_witness:
  "encodable (testPolicy\<lparr>contextScope := [0xD800]\<rparr>)
   \<and> Data_total Inr
   \<and> \<not> well_formed (contextScope (testPolicy\<lparr>contextScope := [0xD800]\<rparr>))
   \<and> serializeDatum Inr (testPolicy\<lparr>contextScope := [0xD800]\<rparr>)
     = Inr (Constr 0 [DBytes (ownerPkh testPolicy), DInteger 0, DInteger 86400000,
              Constr 0 [Constr 1 [], Constr 1 [], Constr 0 []], DBytes [],
              DBytes (js ''efbfbd'')])"
proof -
  have 1: "encodable (testPolicy\<lparr>contextScope := [0xD800]\<rparr>)"
    using encodable_testPolicy by (simp add: encodable_def)
  have 2: "\<not> well_formed (contextScope (testPolicy\<lparr>contextScope := [0xD800]\<rparr>))"
    by (simp add: is_surrogate_def)
  show ?thesis
    using encoding_succeeds [of "testPolicy\<lparr>contextScope := [0xD800]\<rparr>" RangeError "[]" Inr]
      1 2 Data_total_Inr
    by (simp add: serializeDatum_def buildPolicyDatum_def testPolicy_def BigInt_def or_empty_id
        buildIdentityLinkage_def boolToData_def stringToHex_lone_surrogate)
qed

text \<open>
  C8, as the specification has it, fails: the policy of the test suite with a retention time
  that is not an integer has a context scope that round-trips and byte arrays in
  hexadecimal form, and its encoding fails.
\<close>

theorem fractional_retention_fails:
  "well_formed (contextScope fractionalPolicy)
   \<and> hexToString (stringToHex (contextScope fractionalPolicy)) = contextScope fractionalPolicy
   \<and> hex_bytes (ownerPkh fractionalPolicy) \<and> hex_bytes (requiredProofHash fractionalPolicy)
   \<and> buildPolicyDatum fractionalPolicy = Inl RangeError
   \<and> serializeDatum Inr fractionalPolicy = Inl RangeError"
proof -
  have "\<not> starts_with_BOM (js ''medical/allergies'')"
    by (simp add: starts_with_BOM_def js_simps)
  then have "hexToString (stringToHex (js ''medical/allergies'')) = js ''medical/allergies''"
    by (simp add: hexToString_stringToHex_id well_formed_js)
  then show ?thesis
    using encodable_testPolicy
    by (simp add: fractionalPolicy_def testPolicy_def well_formed_js encodable_def
        buildPolicyDatum_def serializeDatum_def BigInt_def)
qed

end
